theory Spec2Isabelle
  imports Main "HOL-Library.Sublist" "HOL-Library.AList" "HOL-Library.Char_ord"
    "HOL-Library.List_Lexorder" "HOL-Library.Multiset"
begin

section \<open>Go strings and the library calls of main.go\<close>

text \<open>
  A Go string is a sequence of bytes, here a \<open>string\<close> (a list of 8-bit characters).
  The functions of Go's standard library that main.go calls are written out where their
  behaviour is fixed on ASCII input; what they do on input holding a byte above 127
  (Unicode case tables, Unicode white space) is taken as a parameter, named \<open>uni\<close>.
\<close>

definition dq :: char where
  "dq = CHR 0x22"

definition nl :: char where
  "nl = CHR 0x0A"

definition is_ascii :: "string \<Rightarrow> bool" where
  "is_ascii s = list_all (\<lambda>c. (of_char c :: nat) < 128) s"

definition lower_ascii :: "char \<Rightarrow> char" where
  "lower_ascii c =
     (if 65 \<le> (of_char c :: nat) \<and> (of_char c :: nat) \<le> 90
      then char_of ((of_char c :: nat) + 32) else c)"

text \<open>strings.ToLower: the ASCII-only path maps A-Z to a-z; otherwise the Unicode mapping.\<close>

definition ToLower :: "(string \<Rightarrow> string) \<Rightarrow> string \<Rightarrow> string" where
  "ToLower uni s = (if is_ascii s then map lower_ascii s else uni s)"

text \<open>strings.Contains: \<open>substr\<close> occurs in \<open>s\<close> as a contiguous run of bytes.\<close>

fun Contains :: "string \<Rightarrow> string \<Rightarrow> bool" where
  "Contains [] substr = (substr = [])"
| "Contains (c # cs) substr = (prefix substr (c # cs) \<or> Contains cs substr)"

definition asciiSpace :: "char \<Rightarrow> bool" where
  "asciiSpace c = ((of_char c :: nat) \<in> {9, 10, 11, 12, 13, 32})"

text \<open>strings.TrimSpace: on ASCII input, drops the white space at both ends.\<close>

definition TrimSpace :: "(string \<Rightarrow> string) \<Rightarrow> string \<Rightarrow> string" where
  "TrimSpace uni s =
     (if is_ascii s then rev (dropWhile asciiSpace (rev (dropWhile asciiSpace s))) else uni s)"

text \<open>strings.Join.\<close>

fun Join :: "string list \<Rightarrow> string \<Rightarrow> string" where
  "Join [] sep = []"
| "Join [x] sep = x"
| "Join (x # y # ys) sep = x @ sep @ Join (y # ys) sep"

text \<open>strings.Split(s, "/"): the parts of \<open>s\<close> between the separators.\<close>

fun splitPath :: "string \<Rightarrow> string list" where
  "splitPath [] = [[]]"
| "splitPath (c # cs) =
     (if c = CHR ''/'' then [] # splitPath cs
      else case splitPath cs of
             x # xs \<Rightarrow> (c # x) # xs
           | [] \<Rightarrow> [[c]])"

text \<open>
  filepath.Clean on a path that is not rooted, as the list of the elements of the result:
  empty elements and the element \<open>.\<close> are dropped, and an element \<open>..\<close>
  removes the element before it, unless there is none or it is \<open>..\<close> itself.
  \<open>stack\<close> holds the elements kept so far, the last one first.
\<close>

fun cleanElems :: "string list \<Rightarrow> string list \<Rightarrow> string list" where
  "cleanElems stack [] = rev stack"
| "cleanElems stack (x # xs) =
     (if x = [] \<or> x = ''.'' then cleanElems stack xs
      else if x = ''..'' then
        (case stack of
           [] \<Rightarrow> cleanElems [''..''] xs
         | t # ts \<Rightarrow> if t = ''..'' then cleanElems (''..'' # stack) xs else cleanElems ts xs)
      else cleanElems (x # stack) xs)"

text \<open>
  filepath.Join, for elements of which the first that is not empty does not start with
  the separator (in main.go it is always \<open>components\<close>): the elements that
  are not empty, joined by the separator, and the result cleaned; the cleaned empty path
  is written \<open>.\<close>, and the result is empty when every element is.
\<close>

definition filepath_Join :: "string list \<Rightarrow> string" where
  "filepath_Join elems =
     (let parts = filter (\<lambda>e. e \<noteq> []) elems
      in if parts = [] then []
         else let cl = cleanElems [] (splitPath (Join parts ''/''))
              in if cl = [] then ''.'' else Join cl ''/'')"

section \<open>The files under components/cached\<close>

text \<open>
  The file system as far as main.go reads and writes it, without symbolic links and
  without permissions. \<open>cwd\<close> is the working directory of the process, as the
  names on the way from the root. \<open>componentsDir\<close> and \<open>cachedDir\<close> say
  whether components and components/cached exist as directories; when they do not, the
  names are free, but for a regular file named cached in components.
  \<open>components\<close> are the regular files of components (the default templates) and
  \<open>cached\<close> the entries of components/cached, empty when the directory does not
  exist: regular files and design directories, which hold regular files (prompt.txt and
  the generated templates). \<open>elsewhere\<close> says which other paths exist, given from
  the root: those that are neither the working directory, nor above it, nor below its
  components.
\<close>

datatype node = File string | Dir "(string \<times> string) list"

record fsys =
  cwd :: "string list"
  componentsDir :: bool
  cachedDir :: bool
  components :: "(string \<times> string) list"
  cached :: "(string \<times> node) list"
  elsewhere :: "string list \<Rightarrow> bool"

text \<open>ioutil.ReadFile of components/cached/d/name; None is the error return.\<close>

definition ReadFile :: "fsys \<Rightarrow> string \<Rightarrow> string \<Rightarrow> string option" where
  "ReadFile fs d name =
     (case map_of (cached fs) d of
        Some (Dir files) \<Rightarrow> map_of files name
      | _ \<Rightarrow> None)"

text \<open>
  ioutil.WriteFile of components/cached/d/name. main.go ignores its error: when \<open>d\<close>
  is not a directory nothing is written.
\<close>

definition WriteFile :: "fsys \<Rightarrow> string \<Rightarrow> string \<Rightarrow> string \<Rightarrow> fsys" where
  "WriteFile fs d name content =
     (case map_of (cached fs) d of
        Some (Dir files) \<Rightarrow>
          fs\<lparr>cached := AList.update d (Dir (AList.update name content files)) (cached fs)\<rparr>
      | _ \<Rightarrow> fs)"

section \<open>generateTemplates\<close>

record style =
  bgColor :: string
  textColor :: string
  accentColor :: string
  font :: string

text \<open>
  The four local variables of generateTemplates after its four keyword tests, which run
  in this order on the lower-cased prompt, each assigning over what the earlier ones set.
\<close>

definition styleOf :: "string \<Rightarrow> style" where
  \<open>styleOf promptLower =
     (let s0 = \<lparr>bgColor = ''#ffffff'', textColor = ''#333333'',
                accentColor = ''#3498db'', font = ''sans-serif''\<rparr>;
          s1 = (if Contains promptLower ''dark''
                then s0\<lparr>bgColor := ''#2c3e50'', textColor := ''#ecf0f1'',
                        accentColor := ''#e74c3c''\<rparr>
                else s0);
          s2 = (if Contains promptLower ''moody''
                then s1\<lparr>bgColor := ''#1a1a1a'', textColor := ''#dcdcdc'',
                        accentColor := ''#8e44ad''\<rparr>
                else s1);
          s3 = (if Contains promptLower ''clean''
                then s2\<lparr>font := '''Helvetica Neue', Helvetica, Arial, sans-serif''\<rparr>
                else s2);
          s4 = (if Contains promptLower ''serif''
                then s3\<lparr>font := ''Georgia, serif''\<rparr>
                else s3)
      in s4)\<close>

definition h1Content :: "style \<Rightarrow> string" where
  \<open>h1Content st =
     ''<h1 style="color: '' @ accentColor st @ ''; font-family: '' @ font st
       @ ''; border-bottom: 2px solid '' @ accentColor st @ '';">{{.}}</h1>''\<close>

definition divContent :: "style \<Rightarrow> string" where
  \<open>divContent st =
     ''<div style="background: '' @ bgColor st @ ''; color: '' @ textColor st
       @ ''; padding: 20px; border-radius: 8px; margin: 10px 0;">{{.}}</div>''\<close>

text \<open>
  generateTemplates writes the two templates; \<open>dir\<close> is the name of the design
  directory under components/cached, and the errors of the two writes are ignored.
\<close>

definition generateTemplates :: "(string \<Rightarrow> string) \<Rightarrow> fsys \<Rightarrow> string \<Rightarrow> string \<Rightarrow> fsys" where
  "generateTemplates uni fs dir prompt =
     (let st = styleOf (ToLower uni prompt);
          fs1 = WriteFile fs dir ''h1.html'' (h1Content st)
      in WriteFile fs1 dir ''div.html'' (divContent st))"

section \<open>generateUUID and getOrGenerateDesign\<close>

text \<open>
  What the process gets from outside the program: its process id (os.Getpid), the MD5
  digest of crypto/md5 (16 bytes for every input), and the Unicode paths of
  strings.ToLower and strings.TrimSpace.
\<close>

record env =
  getpid :: int
  md5Sum :: "string \<Rightarrow> string"
  uniToLower :: "string \<Rightarrow> string"
  uniTrimSpace :: "string \<Rightarrow> string"

text \<open>fmt.Sprintf("%d", n) for an int.\<close>

fun digits :: "nat \<Rightarrow> string" where
  "digits n =
     (if n < 10 then [''0123456789'' ! n]
      else digits (n div 10) @ [''0123456789'' ! (n mod 10)])"

declare digits.simps [simp del]

definition decimal :: "int \<Rightarrow> string" where
  "decimal i = (if i < 0 then CHR ''-'' # digits (nat (- i)) else digits (nat i))"

text \<open>hex.EncodeToString: two lower-case hexadecimal digits for each byte.\<close>

definition hextable :: string where
  "hextable = ''0123456789abcdef''"

definition EncodeToString :: "string \<Rightarrow> string" where
  "EncodeToString src =
     concat (map (\<lambda>v. [hextable ! ((of_char v :: nat) div 16),
                        hextable ! ((of_char v :: nat) mod 16)]) src)"

definition generateUUID :: "env \<Rightarrow> string" where
  "generateUUID e = EncodeToString (md5Sum e (decimal (getpid e)))"

text \<open>
  The path that a cleaned path names, from the root: each leading \<open>..\<close> leaves
  the last name of the working directory out (the root is its own parent), and the other
  elements follow.
\<close>

fun resolve :: "string list \<Rightarrow> string list \<Rightarrow> string list" where
  "resolve dir [] = dir"
| "resolve dir (x # xs) = (if x = ''..'' then resolve (butlast dir) xs else dir @ x # xs)"

text \<open>Whether a path below the directory components exists; \<open>rest\<close> is the path from there.\<close>

definition inComponents :: "fsys \<Rightarrow> string list \<Rightarrow> bool" where
  "inComponents fs rest =
     (case rest of
        [] \<Rightarrow> componentsDir fs
      | [x] \<Rightarrow>
          componentsDir fs
          \<and> ((x = ''cached'' \<and> cachedDir fs) \<or> map_of (components fs) x \<noteq> None)
      | [x, n] \<Rightarrow> x = ''cached'' \<and> cachedDir fs \<and> map_of (cached fs) n \<noteq> None
      | [x, n, f] \<Rightarrow>
          x = ''cached'' \<and> cachedDir fs
          \<and> (case map_of (cached fs) n of
                 Some (Dir fl) \<Rightarrow> map_of fl f \<noteq> None
               | _ \<Rightarrow> False)
      | _ \<Rightarrow> False)"

definition pathExists :: "fsys \<Rightarrow> string list \<Rightarrow> bool" where
  "pathExists fs p =
     (if prefix p (cwd fs) then True
      else if prefix (cwd fs @ [''components'']) p
        then inComponents fs (drop (Suc (length (cwd fs))) p)
      else elsewhere fs p)"

text \<open>
  os.Stat of filepath.Join("components", "cached", name) returns no error. A path that
  holds a zero byte names nothing.
\<close>

definition Stat :: "fsys \<Rightarrow> string \<Rightarrow> bool" where
  "Stat fs name =
     (let path = filepath_Join [''components'', ''cached'', name]
      in CHR 0x00 \<notin> set path
         \<and> pathExists fs (resolve (cwd fs) (cleanElems [] (splitPath path))))"

text \<open>
  ioutil.ReadDir of components/cached: the entries, sorted by file name; none when the
  directory cannot be read (main.go ignores the error).
\<close>

definition ReadDir :: "fsys \<Rightarrow> (string \<times> node) list" where
  "ReadDir fs = (if cachedDir fs then sort_key fst (cached fs) else [])"

text \<open>
  The loop of step 2 over the directory entries: the first directory whose prompt.txt can
  be read and equals the prompt, both trimmed.
\<close>

fun scan :: "env \<Rightarrow> string \<Rightarrow> (string \<times> node) list \<Rightarrow> string option" where
  "scan e prompt [] = None"
| "scan e prompt ((name, File c) # files) = scan e prompt files"
| "scan e prompt ((name, Dir fl) # files) =
     (case map_of fl ''prompt.txt'' of
        Some content \<Rightarrow>
          if TrimSpace (uniTrimSpace e) content = TrimSpace (uniTrimSpace e) prompt
          then Some name
          else scan e prompt files
      | None \<Rightarrow> scan e prompt files)"

text \<open>
  os.MkdirAll of components/cached/name, for a name of hexadecimal digits: it makes the
  directories that are missing on the way, has nothing to do when the directory exists,
  and returns an error (None) when a regular file has the name or is in the way.
\<close>

definition MkdirAll :: "fsys \<Rightarrow> string \<Rightarrow> fsys option" where
  "MkdirAll fs name =
     (if \<not> cachedDir fs \<and> map_of (components fs) ''cached'' \<noteq> None then None
      else
        case map_of (cached fs) name of
          None \<Rightarrow>
            Some (fs\<lparr>componentsDir := True, cachedDir := True,
                     cached := cached fs @ [(name, Dir [])]\<rparr>)
        | Some (Dir fl) \<Rightarrow> Some (fs\<lparr>componentsDir := True, cachedDir := True\<rparr>)
        | Some (File c) \<Rightarrow> None)"

text \<open>getOrGenerateDesign returns the identifier; the model returns the files as well.\<close>

definition getOrGenerateDesign :: "env \<Rightarrow> fsys \<Rightarrow> string \<Rightarrow> string \<times> fsys" where
  "getOrGenerateDesign e fs prompt =
     (if length prompt = 32 \<and> Stat fs prompt then (prompt, fs)
      else
        case scan e prompt (ReadDir fs) of
          Some name \<Rightarrow> (name, fs)
        | None \<Rightarrow>
            let newUUID = generateUUID e in
            case MkdirAll fs newUUID of
              None \<Rightarrow> ([], fs)
            | Some fs1 \<Rightarrow>
                let fs2 = WriteFile fs1 newUUID ''prompt.txt'' prompt;
                    fs3 = generateTemplates (uniToLower e) fs2 newUUID prompt
                in (newUUID, fs3))"

text \<open>The test of the loop of step 2 on one directory entry.\<close>

fun promptMatches :: "env \<Rightarrow> string \<Rightarrow> node \<Rightarrow> bool" where
  "promptMatches e prompt (File c) = False"
| "promptMatches e prompt (Dir fl) =
     (case map_of fl ''prompt.txt'' of
        None \<Rightarrow> False
      | Some content \<Rightarrow>
          TrimSpace (uniTrimSpace e) content = TrimSpace (uniTrimSpace e) prompt)"

section \<open>Example inputs\<close>

text \<open>
  A process with process id 1, whose digest is the MD5 of the text "1", and a working
  directory /srv/app whose components/cached has no entry.
\<close>

definition env1 :: env where
  "env1 = \<lparr>getpid = 1,
     md5Sum = (\<lambda>_. [CHR 0xC4, CHR 0xCA, CHR 0x42, CHR 0x38, CHR 0xA0, CHR 0xB9, CHR 0x23, CHR 0x82,
                    CHR 0x0D, CHR 0xCC, CHR 0x50, CHR 0x9A, CHR 0x6F, CHR 0x75, CHR 0x84, CHR 0x9B]),
     uniToLower = (\<lambda>s. s), uniTrimSpace = (\<lambda>s. s)\<rparr>"

definition fs_empty :: fsys where
  "fs_empty = \<lparr>cwd = [''srv'', ''app''], componentsDir = True, cachedDir = True,
     components = [], cached = [], elsewhere = (\<lambda>_. False)\<rparr>"

text \<open>A working directory in which nothing is named components yet.\<close>

definition fs_fresh :: fsys where
  "fs_fresh = \<lparr>cwd = [''srv'', ''app''], componentsDir = False, cachedDir = False,
     components = [], cached = [], elsewhere = (\<lambda>_. False)\<rparr>"

section \<open>Decoded JSON values\<close>

text \<open>
  What json.Unmarshal stores in an \<open>interface{}\<close>: nil, bool, float64, string,
  \<open>[]interface{}\<close> and \<open>map[string]interface{}\<close>. The type \<open>'n\<close> stands
  for float64. A Go map is the list of its entries, with distinct keys.
\<close>

datatype 'n json =
    JNull
  | JBool bool
  | JNum 'n
  | JStr string
  | JArr "'n json list"
  | JObj "(string \<times> 'n json) list"

type_synonym 'n gomap = "(string \<times> 'n json) list"

text \<open>
  The text fmt prints for a value under the verb %v; \<open>fmtFloat\<close> is what it prints
  for a float64. A map is printed with its keys sorted.
\<close>

fun display :: "('n \<Rightarrow> string) \<Rightarrow> 'n json \<Rightarrow> string" where
  "display fmtFloat JNull = ''<nil>''"
| "display fmtFloat (JBool b) = (if b then ''true'' else ''false'')"
| "display fmtFloat (JNum n) = fmtFloat n"
| "display fmtFloat (JStr s) = s"
| "display fmtFloat (JArr vs) = ''['' @ Join (map (display fmtFloat) vs) '' '' @ '']''"
| "display fmtFloat (JObj kvs) =
     ''map['' @ Join (map (\<lambda>(k, v). k @ '':'' @ display fmtFloat v) (sort_key fst kvs)) '' ''
       @ '']''"

section \<open>encoding/json: Marshal\<close>

text \<open>
  json.Marshal on a decoded value, as the documentation of encoding/json describes it;
  \<open>marshalFloat\<close> is its text for a float64. So that the text is safe inside an HTML
  script element, Marshal writes, besides the escapes for the quote, the backslash and
  the control characters, the characters less-than, greater-than and ampersand as a
  backslash followed by u003c, u003e and u0026, and the code points U+2028 and U+2029 as
  a backslash followed by u2028 and u2029. Strings decoded by json.Unmarshal are valid
  UTF-8; their other bytes above 127 are copied. The keys of a map are written sorted.
  Marshal returns no error on a decoded value.
\<close>

definition bsl :: char where
  "bsl = CHR 0x5C"

definition encodeByte :: "char \<Rightarrow> string" where
  "encodeByte c =
     (if c = bsl \<or> c = dq then [bsl, c]
      else if c = CHR 0x08 then [bsl, CHR ''b'']
      else if c = CHR 0x0C then [bsl, CHR ''f'']
      else if c = CHR 0x0A then [bsl, CHR ''n'']
      else if c = CHR 0x0D then [bsl, CHR ''r'']
      else if c = CHR 0x09 then [bsl, CHR ''t'']
      else if (of_char c :: nat) < 32 \<or> c = CHR ''<'' \<or> c = CHR ''>'' \<or> c = CHR ''&''
      then [bsl, CHR ''u'', CHR ''0'', CHR ''0'',
            hextable ! ((of_char c :: nat) div 16), hextable ! ((of_char c :: nat) mod 16)]
      else [c])"

fun encodeBytes :: "string \<Rightarrow> string" where
  "encodeBytes [] = []"
| "encodeBytes [c] = encodeByte c"
| "encodeBytes [c, c1] = encodeByte c @ encodeByte c1"
| "encodeBytes (c # c1 # c2 # cs) =
     (if c = CHR 0xE2 \<and> c1 = CHR 0x80 \<and> (c2 = CHR 0xA8 \<or> c2 = CHR 0xA9)
      then [bsl, CHR ''u'', CHR ''2'', CHR ''0'', CHR ''2'',
            hextable ! ((of_char c2 :: nat) mod 16)] @ encodeBytes cs
      else encodeByte c @ encodeBytes (c1 # c2 # cs))"

definition encodeString :: "string \<Rightarrow> string" where
  "encodeString s = dq # encodeBytes s @ [dq]"

fun Marshal :: "('n \<Rightarrow> string) \<Rightarrow> 'n json \<Rightarrow> string" where
  "Marshal marshalFloat JNull = ''null''"
| "Marshal marshalFloat (JBool b) = (if b then ''true'' else ''false'')"
| "Marshal marshalFloat (JNum n) = marshalFloat n"
| "Marshal marshalFloat (JStr s) = encodeString s"
| "Marshal marshalFloat (JArr vs) = ''['' @ Join (map (Marshal marshalFloat) vs) '','' @ '']''"
| "Marshal marshalFloat (JObj kvs) =
     ''{'' @ Join (map (\<lambda>(k, v). encodeString k @ '':'' @ Marshal marshalFloat v)
                    (sort_key fst kvs)) '','' @ ''}''"

section \<open>The template registry\<close>

text \<open>
  The packages html/template and path/filepath.Glob are parameters: \<open>'t\<close> is a
  parsed template and a template set maps names to templates.
  \<open>ParseGlob fs pattern\<close> is template.ParseGlob on the files \<open>fs\<close>: the new
  set, or None for its error (no file matches the pattern, or a file does not parse).
  \<open>ParseGlobInto set fs pattern\<close> is the method ParseGlob of an existing set: the
  set after the call, whether or not the call returns an error.
  \<open>Execute t v\<close> gives the bytes that executing \<open>t\<close> on \<open>v\<close> writes
  together with the error it returns, if any.
  \<open>Unmarshal\<close> is json.Unmarshal into a map, \<open>Inl\<close> its error text.
\<close>

type_synonym 't registry = "string \<rightharpoonup> 't"

record ('n, 't) lib =
  fmtFloat :: "'n \<Rightarrow> string"
  marshalFloat :: "'n \<Rightarrow> string"
  Unmarshal :: "string \<Rightarrow> string + 'n gomap"
  ParseGlob :: "fsys \<Rightarrow> string \<Rightarrow> 't registry option"
  ParseGlobInto :: "'t registry \<Rightarrow> fsys \<Rightarrow> string \<Rightarrow> 't registry"
  Execute :: "'t \<Rightarrow> 'n json \<Rightarrow> string \<times> string option"

text \<open>\<open>templates != nil\<close> and \<open>templates.Lookup(name) != nil\<close>, with the template found.\<close>

definition Lookup :: "'t registry option \<Rightarrow> string \<Rightarrow> 't option" where
  "Lookup templates name = (case templates of None \<Rightarrow> None | Some reg \<Rightarrow> reg name)"

section \<open>renderHTML\<close>

text \<open>
  The order in which a \<open>range\<close> over a Go map visits the entries is not fixed by the
  language and differs from run to run. It is a parameter of the model: for each loop
  over a map (and for the loops nested in the loop over the items, each round) the
  function \<open>rng\<close> gives the entries in the order visited, a permutation of the map.
\<close>

datatype site = HandlerLoop | FirstPass nat | ScriptLoop | SecondPass nat

type_synonym 'n schedule = "site \<Rightarrow> 'n gomap \<Rightarrow> 'n gomap"

definition standardTags :: "string \<Rightarrow> bool" where
  "standardTags tag = (tag \<in> set
     [''h1'', ''h2'', ''h3'', ''h4'', ''h5'', ''h6'',
      ''p'', ''div'', ''span'', ''ul'', ''ol'', ''li'',
      ''img'', ''a'', ''button'', ''input'', ''form'',
      ''table'', ''tr'', ''td'', ''th'', ''thead'', ''tbody'',
      ''section'', ''article'', ''header'', ''footer'', ''nav'',
      ''main'', ''aside'', ''figure'', ''figcaption''])"

definition hasTemplate :: "'t registry option \<Rightarrow> string \<Rightarrow> bool" where
  "hasTemplate templates tag =
     (Lookup templates (tag @ ''.html'') \<noteq> None \<or> Lookup templates tag \<noteq> None)"

text \<open>The body of the first pass for one entry of an item: the map nonStandardData after it.\<close>

definition collectTag :: "'t registry option \<Rightarrow> 'n gomap \<Rightarrow> string \<times> 'n json \<Rightarrow> 'n gomap" where
  "collectTag templates nonStandardData entry =
     (case entry of (tag, content) \<Rightarrow>
        if \<not> standardTags tag \<and> \<not> hasTemplate templates tag
        then AList.update tag content nonStandardData
        else nonStandardData)"

fun firstPass ::
  "'n schedule \<Rightarrow> 't registry option \<Rightarrow> nat \<Rightarrow> 'n gomap \<Rightarrow> 'n gomap list \<Rightarrow> 'n gomap" where
  "firstPass rng templates i nonStandardData [] = nonStandardData"
| "firstPass rng templates i nonStandardData (item # items) =
     firstPass rng templates (Suc i)
       (foldl (collectTag templates) nonStandardData (rng (FirstPass i) item)) items"

definition lines_of :: "string list \<Rightarrow> string" where
  "lines_of ls = concat (map (\<lambda>l. l @ [nl]) ls)"

definition scriptLine :: "('n, 't) lib \<Rightarrow> string \<times> 'n json \<Rightarrow> string" where
  \<open>scriptLine L entry =
     (case entry of (tag, content) \<Rightarrow>
        ''        customContent['' @ [CHR 0x27] @ tag @ [CHR 0x27] @ ''] = ''
          @ Marshal (marshalFloat L) content @ '';'' @ [nl])\<close>

definition scriptBlock :: "('n, 't) lib \<Rightarrow> 'n schedule \<Rightarrow> 'n gomap \<Rightarrow> string" where
  \<open>scriptBlock L rng nonStandardData =
     (if length nonStandardData > 0
      then lines_of [''<script>'',
                     ''        // Non-standard tag content accessible to client'',
                     ''        var customContent = {};'']
           @ concat (map (scriptLine L) (rng ScriptLoop nonStandardData))
           @ lines_of [''    </script>'']
      else [])\<close>

definition htmlStart ::
  "('n, 't) lib \<Rightarrow> 'n schedule \<Rightarrow> 't registry option \<Rightarrow> bool \<Rightarrow> 'n gomap list \<Rightarrow> string" where
  \<open>htmlStart L rng templates aiDesign items =
     lines_of [''<!DOCTYPE html>'',
               ''<html lang="en">'',
               ''<head>'',
               ''    <meta charset="UTF-8">'',
               ''    <meta name="viewport" content="width=device-width, initial-scale=1.0">'',
               ''    <title>JSON Server</title>'',
               ''    <style>'',
               ''        body { font-family: sans-serif; line-height: 1.6; padding: 20px; max-width: 800px; margin: 0 auto; }'',
               ''        img { max-width: 100%; height: auto; }'',
               ''    </style>'']
     @ scriptBlock L rng (firstPass rng templates 0 [] items)
     @ (if aiDesign
        then lines_of [[],
                       ''    <style>'',
                       ''        /* AI Design Mode Base Styles */'',
                       ''        body {'',
                       ''            background: linear-gradient(135deg, #f5f7fa 0%, #c3cfe2 100%);'',
                       ''            min-height: 100vh;'',
                       ''        }'',
                       ''        .container {'',
                       ''            background: rgba(255,255,255,0.8);'',
                       ''            padding: 40px;'',
                       ''            border-radius: 12px;'',
                       ''            margin-top: 40px;'',
                       ''        }'',
                       ''    </style>'']
        else [])
     @ ''</head><body><div class="container">''\<close>

text \<open>
  \<open>tmpl.Execute(w, content)\<close> and, when it returns an error, the comment written
  after what it had written.
\<close>

definition executeTemplate :: "('n, 't) lib \<Rightarrow> 't \<Rightarrow> string \<Rightarrow> 'n json \<Rightarrow> string" where
  \<open>executeTemplate L tmpl tag content =
     (case Execute L tmpl content of
        (written, None) \<Rightarrow> written
      | (written, Some err) \<Rightarrow>
          written @ ''<!-- Error rendering template '' @ tag @ '': '' @ err @ '' -->'')\<close>

text \<open>The switch on the tag, for a standard tag without a template.\<close>

definition builtin :: "('n, 't) lib \<Rightarrow> string \<Rightarrow> 'n json \<Rightarrow> string" where
  \<open>builtin L tag content =
     (if tag = ''img'' then ''<img src="'' @ display (fmtFloat L) content @ ''" alt="Image">''
      else if tag = ''ul'' then
        ''<ul>''
        @ (case content of
             JArr list \<Rightarrow> concat (map (\<lambda>li. ''<li>'' @ display (fmtFloat L) li @ ''</li>'') list)
           | _ \<Rightarrow> ''<li>'' @ display (fmtFloat L) content @ ''</li>'')
        @ ''</ul>''
      else ''<'' @ tag @ ''>'' @ display (fmtFloat L) content @ ''</'' @ tag @ ''>'')\<close>

text \<open>The body of the second pass for one entry of an item: the bytes written.\<close>

definition renderTag :: "('n, 't) lib \<Rightarrow> 't registry option \<Rightarrow> string \<times> 'n json \<Rightarrow> string" where
  "renderTag L templates entry =
     (case entry of (tag, content) \<Rightarrow>
        case Lookup templates (tag @ ''.html'') of
          Some tmpl \<Rightarrow> executeTemplate L tmpl tag content
        | None \<Rightarrow>
            (case Lookup templates tag of
               Some tmpl \<Rightarrow> executeTemplate L tmpl tag content
             | None \<Rightarrow>
                 if \<not> standardTags tag then []
                 else builtin L tag content))"

fun secondPass ::
  "('n, 't) lib \<Rightarrow> 'n schedule \<Rightarrow> 't registry option \<Rightarrow> nat \<Rightarrow> 'n gomap list \<Rightarrow> string" where
  "secondPass L rng templates i [] = []"
| "secondPass L rng templates i (item # items) =
     concat (map (renderTag L templates) (rng (SecondPass i) item))
     @ secondPass L rng templates (Suc i) items"

text \<open>The bytes renderHTML writes to the response. It does not read its argument flags.\<close>

definition renderHTML ::
  "('n, 't) lib \<Rightarrow> 'n schedule \<Rightarrow> 't registry option \<Rightarrow> bool \<Rightarrow> 'n gomap list
     \<Rightarrow> 'n gomap option \<Rightarrow> string" where
  "renderHTML L rng templates aiDesign items flags =
     htmlStart L rng templates aiDesign items
     @ secondPass L rng templates 0 items
     @ ''</div></body></html>''"

section \<open>parseTemplates\<close>

text \<open>
  parseTemplates assigns the global variable templates; the model returns its value. The
  identifier is put into the pattern as it is, through filepath.Join.
\<close>

definition parseTemplates :: "('n, 't) lib \<Rightarrow> fsys \<Rightarrow> string \<Rightarrow> 't registry option" where
  "parseTemplates L fs customUUID =
     (let templates = ParseGlob L fs ''components/*.html'' in
      if customUUID \<noteq> [] then
        (let customPath = filepath_Join [''components'', ''cached'', customUUID, ''*.html'']
         in case ParseGlob L fs customPath of
              Some customTemplates \<Rightarrow>
                (case templates of
                   None \<Rightarrow> Some customTemplates
                 | Some reg \<Rightarrow> Some (ParseGlobInto L reg fs customPath))
            | None \<Rightarrow> templates)
      else templates)"

section \<open>handler\<close>

text \<open>
  The state that outlives a request: the global variable templates and the files.
  A response is its status code and its body.
\<close>

record 't server =
  loaded :: "'t registry option"
  disk :: fsys

record response =
  status :: nat
  body :: string

definition flagsOf :: "'n gomap \<Rightarrow> 'n gomap option" where
  "flagsOf jsonData =
     (case map_of jsonData ''flags'' of
        Some (JObj flagsMap) \<Rightarrow> Some flagsMap
      | _ \<Rightarrow> None)"


text \<open>The loop that extracts the content items, over the entries in the order visited.\<close>

fun contentItemsOf :: "'n gomap \<Rightarrow> 'n gomap list" where
  "contentItemsOf [] = []"
| "contentItemsOf ((key, val) # rest) =
     (if key = ''flags'' then contentItemsOf rest
      else case val of
             JObj contentMap \<Rightarrow> contentMap # contentItemsOf rest
           | _ \<Rightarrow> contentItemsOf rest)"

text \<open>
  handler, for a request path and the content of index.json (None when it cannot be
  read): the response, and the state after the request.
\<close>

definition handler ::
  "('n, 't) lib \<Rightarrow> env \<Rightarrow> 'n schedule \<Rightarrow> bool \<Rightarrow> 't server \<Rightarrow> string \<Rightarrow> string option
     \<Rightarrow> response \<times> 't server" where
  "handler L e rng aiDesign srv path indexjson =
     (if path \<noteq> ''/'' then (\<lparr>status = 404, body = ''404 page not found'' @ [nl]\<rparr>, srv)
      else
        case indexjson of
          None \<Rightarrow> (\<lparr>status = 500, body = ''Could not read index.json'' @ [nl]\<rparr>, srv)
        | Some data \<Rightarrow>
            (case Unmarshal L data of
               Inl err \<Rightarrow>
                 (\<lparr>status = 500, body = ''Could not parse index.json: '' @ err @ [nl]\<rparr>, srv)
             | Inr jsonData \<Rightarrow>
                 let flags = flagsOf jsonData;
                     srv' =
                       (case flags of
                          None \<Rightarrow> srv
                        | Some flagsMap \<Rightarrow>
                            (case map_of flagsMap ''designprompt'' of
                               None \<Rightarrow> srv
                             | Some prompt \<Rightarrow>
                                 if aiDesign then
                                   (case getOrGenerateDesign e (disk srv)
                                           (display (fmtFloat L) prompt) of
                                      (designUUID, fs') \<Rightarrow>
                                        \<lparr>loaded = parseTemplates L fs' designUUID, disk = fs'\<rparr>)
                                 else srv));
                     contentItems = contentItemsOf (rng HandlerLoop jsonData)
                 in (\<lparr>status = 200,
                      body = renderHTML L rng (loaded srv') aiDesign contentItems flags\<rparr>,
                     srv')))"

section \<open>The JSON grammar\<close>

text \<open>
  What the spec calls syntactically valid JSON: the grammar of RFC 8259 for a value,
  written without insignificant white space. \<open>json_chars\<close> is the text between the
  quotes of a string.
\<close>

definition digit :: "char \<Rightarrow> bool" where
  "digit c = (c \<in> set ''0123456789'')"

definition hexdigit :: "char \<Rightarrow> bool" where
  "hexdigit c = (c \<in> set ''0123456789abcdefABCDEF'')"

definition json_int :: "string \<Rightarrow> bool" where
  "json_int s = (s = ''0'' \<or> (s \<noteq> [] \<and> hd s \<in> set ''123456789'' \<and> list_all digit s))"

definition json_frac :: "string \<Rightarrow> bool" where
  "json_frac s = (s = [] \<or> (\<exists>ds. s = CHR ''.'' # ds \<and> ds \<noteq> [] \<and> list_all digit ds))"

definition json_exp :: "string \<Rightarrow> bool" where
  "json_exp s =
     (s = [] \<or> (\<exists>e sg ds. s = e # sg @ ds \<and> e \<in> set ''eE'' \<and> sg \<in> set [[], ''+'', ''-'']
                    \<and> ds \<noteq> [] \<and> list_all digit ds))"

definition json_number :: "string \<Rightarrow> bool" where
  "json_number s =
     (\<exists>sg i f e. s = sg @ i @ f @ e \<and> sg \<in> set [[], ''-''] \<and> json_int i \<and> json_frac f
                \<and> json_exp e)"

inductive json_chars :: "string \<Rightarrow> bool" where
  chars_end: "json_chars []"
| chars_plain:
    "32 \<le> (of_char c :: nat) \<Longrightarrow> c \<noteq> dq \<Longrightarrow> c \<noteq> bsl \<Longrightarrow> json_chars cs \<Longrightarrow> json_chars (c # cs)"
| chars_escape:
    "c \<in> set [dq, bsl, CHR ''/'', CHR ''b'', CHR ''f'', CHR ''n'', CHR ''r'', CHR ''t'']
       \<Longrightarrow> json_chars cs \<Longrightarrow> json_chars (bsl # c # cs)"
| chars_unicode:
    "hexdigit h1 \<Longrightarrow> hexdigit h2 \<Longrightarrow> hexdigit h3 \<Longrightarrow> hexdigit h4 \<Longrightarrow> json_chars cs
       \<Longrightarrow> json_chars (bsl # CHR ''u'' # h1 # h2 # h3 # h4 # cs)"

inductive json_value :: "string \<Rightarrow> bool" where
  value_null: "json_value ''null''"
| value_true: "json_value ''true''"
| value_false: "json_value ''false''"
| value_number: "json_number s \<Longrightarrow> json_value s"
| value_string: "json_chars cs \<Longrightarrow> json_value (dq # cs @ [dq])"
| value_array: "(\<forall>t \<in> set ts. json_value t) \<Longrightarrow> json_value (''['' @ Join ts '','' @ '']'')"
| value_object:
    "(\<forall>m \<in> set ms. json_chars (fst m) \<and> json_value (snd m)) \<Longrightarrow>
     json_value (''{'' @ Join (map (\<lambda>m. dq # fst m @ [dq] @ '':'' @ snd m) ms) '','' @ ''}'')"

section \<open>Example library and registry\<close>

text \<open>
  A library for the examples: float64 values are natural numbers printed in decimal, a
  parsed template is the text it writes, index.json never decodes.
\<close>

definition lib_text :: "(nat, string) lib" where
  "lib_text = \<lparr>fmtFloat = digits, marshalFloat = digits,
     Unmarshal = (\<lambda>data. Inl ''unexpected end of JSON input''),
     ParseGlob = (\<lambda>fs pattern. None),
     ParseGlobInto = (\<lambda>reg fs pattern. reg),
     Execute = (\<lambda>tmpl content. (tmpl, None))\<rparr>"

text \<open>A registry in which the tag card has a template under both names and badge under the bare name.\<close>

definition reg_card :: "string registry option" where
  "reg_card = Some [''card.html'' \<mapsto> ''<div class=card>suffixed</div>'',
                    ''card'' \<mapsto> ''<div class=card>bare</div>'',
                    ''badge'' \<mapsto> ''<b>badge</b>'']"

text \<open>The example library, with a json.Unmarshal that decodes index.json to \<open>doc\<close>.\<close>

definition lib_of :: "nat gomap \<Rightarrow> (nat, string) lib" where
  "lib_of doc = lib_text\<lparr>Unmarshal := (\<lambda>data. Inr doc)\<rparr>"

text \<open>A run in which every \<open>range\<close> over a map visits the entries last to first.\<close>

definition backwards :: "nat schedule" where
  "backwards site m = rev m"

definition srv0 :: "string server" where
  "srv0 = \<lparr>loaded = None, disk = fs_empty\<rparr>"

text \<open>
  The document
  \<^verbatim>\<open>{"1": {"h1": "A", "p": "a"}, "2": {"h1": "B"}}\<close>,
  the document
  \<^verbatim>\<open>{"1": {"x": "V1"}, "3": {"x": "V2"}}\<close>
  and the document
  \<^verbatim>\<open>{"flags": {"csslib": "bootstrap"}, "1": {"h1": "T"}}\<close>.
\<close>

definition doc_blocks :: "nat gomap" where
  "doc_blocks = [(''1'', JObj [(''h1'', JStr ''A''), (''p'', JStr ''a'')]),
                 (''2'', JObj [(''h1'', JStr ''B'')])]"

definition doc_twice :: "nat gomap" where
  "doc_twice = [(''1'', JObj [(''x'', JStr ''V1'')]), (''3'', JObj [(''x'', JStr ''V2'')])]"

definition doc_csslib :: "nat gomap" where
  "doc_csslib = [(''flags'', JObj [(''csslib'', JStr ''bootstrap'')]),
                 (''1'', JObj [(''h1'', JStr ''T'')])]"

text \<open>The head of the page when no tag is non-standard and design mode is off.\<close>

definition plain_head :: string where
  \<open>plain_head =
     lines_of [''<!DOCTYPE html>'',
               ''<html lang="en">'',
               ''<head>'',
               ''    <meta charset="UTF-8">'',
               ''    <meta name="viewport" content="width=device-width, initial-scale=1.0">'',
               ''    <title>JSON Server</title>'',
               ''    <style>'',
               ''        body { font-family: sans-serif; line-height: 1.6; padding: 20px; max-width: 800px; margin: 0 auto; }'',
               ''        img { max-width: 100%; height: auto; }'',
               ''    </style>'']\<close>

text \<open>
  A small template engine for the examples: a template is its text, every occurrence of
  the action \<open>{{.}}\<close> in it is replaced by the text of the value, escaped as
  template.HTMLEscapeString escapes, and no execution fails.
\<close>

fun HTMLEscapeString :: "string \<Rightarrow> string" where
  "HTMLEscapeString [] = []"
| "HTMLEscapeString (c # cs) =
     (if c = CHR ''&'' then ''&amp;''
      else if c = CHR 0x27 then ''&#39;''
      else if c = CHR ''<'' then ''&lt;''
      else if c = CHR ''>'' then ''&gt;''
      else if c = CHR 0x22 then ''&#34;''
      else [c]) @ HTMLEscapeString cs"











definition in_order :: "nat schedule" where
  "in_order site m = m"

text \<open>The style block that renderHTML adds to the head in design mode.\<close>

definition design_style :: string where
  \<open>design_style =
     lines_of [[],
               ''    <style>'',
               ''        /* AI Design Mode Base Styles */'',
               ''        body {'',
               ''            background: linear-gradient(135deg, #f5f7fa 0%, #c3cfe2 100%);'',
               ''            min-height: 100vh;'',
               ''        }'',
               ''        .container {'',
               ''            background: rgba(255,255,255,0.8);'',
               ''            padding: 40px;'',
               ''            border-radius: 12px;'',
               ''            margin-top: 40px;'',
               ''        }'',
               ''    </style>'']\<close>


text \<open>
  The documents
  \<^verbatim>\<open>{"1": {"p": "<script>alert(1)</script> & more"}}\<close> and
  \<^verbatim>\<open>{"1": {"</script><script>alert(1)//": "</script>"}}\<close>.
\<close>

definition doc_markup :: "nat gomap" where
  "doc_markup = [(''1'', JObj [(''p'', JStr ''<script>alert(1)</script> & more'')])]"

definition doc_tag :: "nat gomap" where
  "doc_tag = [(''1'', JObj [(''</script><script>alert(1)//'', JStr ''</script>'')])]"

text \<open>The prompt of sixteen times \<open>./\<close>, 32 bytes, which filepath.Join cleans away.\<close>

definition dots :: string where
  "dots = ''././././././././././././././././''"

text \<open>
  The document
  \<^verbatim>\<open>{"1": {"card": "x", "h2": "y"}, "2": {"widget": "z", "badge": "w"}}\<close>
  and a server that has loaded the registry \<open>reg_card\<close>.
\<close>

definition doc_card :: "nat gomap" where
  "doc_card = [(''1'', JObj [(''card'', JStr ''x''), (''h2'', JStr ''y'')]),
               (''2'', JObj [(''widget'', JStr ''z''), (''badge'', JStr ''w'')])]"

definition srv_card :: "string server" where
  "srv_card = \<lparr>loaded = reg_card, disk = fs_empty\<rparr>"

section \<open>The later revision of renderHTML\<close>

text \<open>
  src/TEST_RESULTS.md carries, after its own text, a later revision of main.go. Its
  handler passes the blocks to renderHTML as a slice of ContentItem, which
  parseOrderedJSON builds in the order of the document, and its renderHTML reads
  \<open>flags["csslib"]\<close> and wraps each block in a div that carries its key. The
  functions of that revision have the suffix \<open>_v2\<close> here; the decision for one tag
  is the same code as before.
\<close>

record 'n ContentItem =
  ID :: string
  Content :: "(string \<times> 'n json) list"

definition cssLibTags :: "(string \<Rightarrow> string) \<Rightarrow> ('n, 't) lib \<Rightarrow> 'n gomap option \<Rightarrow> string" where
  \<open>cssLibTags uni L flags =
     (case flags of
        None \<Rightarrow> []
      | Some flagsMap \<Rightarrow>
          (case map_of flagsMap ''csslib'' of
             None \<Rightarrow> []
           | Some JNull \<Rightarrow> []
           | Some cssLib \<Rightarrow>
               (let cssLibStr = ToLower uni (display (fmtFloat L) cssLib) in
                if cssLibStr = ''bootstrap'' then
                  lines_of [''    <link href="https://cdn.jsdelivr.net/npm/bootstrap@5.3.2/dist/css/bootstrap.min.css" rel="stylesheet">'',
                            ''    <script src="https://cdn.jsdelivr.net/npm/bootstrap@5.3.2/dist/js/bootstrap.bundle.min.js"></script>'']
                else if cssLibStr = ''tailwind'' then
                  lines_of [''    <script src="https://cdn.tailwindcss.com"></script>'']
                else if cssLibStr = ''bulma'' then
                  lines_of [''    <link rel="stylesheet" href="https://cdn.jsdelivr.net/npm/bulma@0.9.4/css/bulma.min.css">'']
                else if cssLibStr = ''materialize'' then
                  lines_of [''    <link rel="stylesheet" href="https://cdnjs.cloudflare.com/ajax/libs/materialize/1.0.0/css/materialize.min.css">'',
                            ''    <script src="https://cdnjs.cloudflare.com/ajax/libs/materialize/1.0.0/js/materialize.min.js"></script>'']
                else [])))\<close>

definition firstPass_v2 :: "'t registry option \<Rightarrow> 'n gomap \<Rightarrow> 'n ContentItem list \<Rightarrow> 'n gomap" where
  "firstPass_v2 templates nonStandardData items =
     foldl (\<lambda>nsd item. foldl (collectTag templates) nsd (Content item)) nonStandardData items"

definition htmlStart_v2 ::
  "(string \<Rightarrow> string) \<Rightarrow> ('n, 't) lib \<Rightarrow> 'n schedule \<Rightarrow> 't registry option \<Rightarrow> bool
     \<Rightarrow> 'n ContentItem list \<Rightarrow> 'n gomap option \<Rightarrow> string" where
  \<open>htmlStart_v2 uni L rng templates aiDesign items flags =
     lines_of [''<!DOCTYPE html>'',
               ''<html lang="en">'',
               ''<head>'',
               ''    <meta charset="UTF-8">'',
               ''    <meta name="viewport" content="width=device-width, initial-scale=1.0">'',
               ''    <title>JSON Server</title>'']
     @ cssLibTags uni L flags
     @ lines_of [''    <style>'',
                 ''        body { font-family: sans-serif; line-height: 1.6; padding: 20px; max-width: 800px; margin: 0 auto; }'',
                 ''        img { max-width: 100%; height: auto; }'',
                 ''    </style>'']
     @ scriptBlock L rng (firstPass_v2 templates [] items)
     @ (if aiDesign then [] else [])
     @ ''</head><body><div class="container">''\<close>

definition renderItem_v2 :: "('n, 't) lib \<Rightarrow> 't registry option \<Rightarrow> 'n ContentItem \<Rightarrow> string" where
  \<open>renderItem_v2 L templates item =
     ''<div id='' @ [CHR 0x27] @ ID item @ [CHR 0x27] @ ''>''
     @ concat (map (renderTag L templates) (Content item))
     @ ''</div>''\<close>

definition renderHTML_v2 ::
  "(string \<Rightarrow> string) \<Rightarrow> ('n, 't) lib \<Rightarrow> 'n schedule \<Rightarrow> 't registry option \<Rightarrow> bool
     \<Rightarrow> 'n ContentItem list \<Rightarrow> 'n gomap option \<Rightarrow> string" where
  "renderHTML_v2 uni L rng templates aiDesign items flags =
     htmlStart_v2 uni L rng templates aiDesign items flags
     @ concat (map (renderItem_v2 L templates) items)
     @ ''</div></body></html>''"

text \<open>The last value of a tag in a list of blocks, taken in the order of the list.\<close>

fun lastSeen :: "'n gomap list \<Rightarrow> string \<Rightarrow> 'n json option" where
  "lastSeen [] tag = None"
| "lastSeen (item # items) tag =
     (case lastSeen items tag of Some v \<Rightarrow> Some v | None \<Rightarrow> map_of item tag)"

section \<open>Files written by generateTemplates\<close>

lemma ReadFile_WriteFile:
  "map_of (cached fs) d = Some (Dir files) \<Longrightarrow>
   ReadFile (WriteFile fs d name content) d name' =
     (if name' = name then Some content else ReadFile fs d name')"
  by (simp add: ReadFile_def WriteFile_def update_conv')

lemma WriteFile_is_Dir:
  "map_of (cached fs) d = Some (Dir files) \<Longrightarrow>
   \<exists>files'. map_of (cached (WriteFile fs d name content)) d = Some (Dir files')"
  by (simp add: WriteFile_def update_conv')

lemma generateTemplates_files:
  assumes "map_of (cached fs) d = Some (Dir files)"
  shows "ReadFile (generateTemplates uni fs d prompt) d ''h1.html''
           = Some (h1Content (styleOf (ToLower uni prompt)))"
    and "ReadFile (generateTemplates uni fs d prompt) d ''div.html''
           = Some (divContent (styleOf (ToLower uni prompt)))"
proof -
  obtain files' where
    d1: "map_of (cached (WriteFile fs d ''h1.html'' (h1Content (styleOf (ToLower uni prompt))))) d
           = Some (Dir files')"
    using WriteFile_is_Dir [OF assms] by blast
  show "ReadFile (generateTemplates uni fs d prompt) d ''h1.html''
           = Some (h1Content (styleOf (ToLower uni prompt)))"
    by (simp add: generateTemplates_def Let_def ReadFile_WriteFile [OF d1]
        ReadFile_WriteFile [OF assms])
  show "ReadFile (generateTemplates uni fs d prompt) d ''div.html''
           = Some (divContent (styleOf (ToLower uni prompt)))"
    by (simp add: generateTemplates_def Let_def ReadFile_WriteFile [OF d1])
qed

text \<open>
  C7. When two keywords that set the same style parameter both match the prompt, the one
  tested later decides it: with "moody" matched the three colours are those of the
  "moody" rule whether or not "dark" matched, and with "serif" matched the font is that
  of the "serif" rule whether or not "clean" matched. The generated h1.html and div.html
  carry these values.
\<close>

theorem later_keyword_wins:
  assumes "map_of (cached fs) d = Some (Dir files)"
  shows \<open>(Contains (ToLower uni prompt) ''moody'' \<longrightarrow>
            bgColor (styleOf (ToLower uni prompt)) = ''#1a1a1a''
          \<and> textColor (styleOf (ToLower uni prompt)) = ''#dcdcdc''
          \<and> accentColor (styleOf (ToLower uni prompt)) = ''#8e44ad''
          \<and> ReadFile (generateTemplates uni fs d prompt) d ''div.html'' =
              Some ''<div style="background: #1a1a1a; color: #dcdcdc; padding: 20px; border-radius: 8px; margin: 10px 0;">{{.}}</div>''
          \<and> ReadFile (generateTemplates uni fs d prompt) d ''h1.html'' =
              Some (''<h1 style="color: #8e44ad; font-family: ''
                    @ font (styleOf (ToLower uni prompt))
                    @ ''; border-bottom: 2px solid #8e44ad;">{{.}}</h1>''))
       \<and> (Contains (ToLower uni prompt) ''serif'' \<longrightarrow>
            font (styleOf (ToLower uni prompt)) = ''Georgia, serif''
          \<and> ReadFile (generateTemplates uni fs d prompt) d ''h1.html'' =
              Some (''<h1 style="color: '' @ accentColor (styleOf (ToLower uni prompt))
                    @ ''; font-family: Georgia, serif; border-bottom: 2px solid ''
                    @ accentColor (styleOf (ToLower uni prompt)) @ '';">{{.}}</h1>''))\<close>
proof -
  have moody: "Contains (ToLower uni prompt) ''moody'' \<Longrightarrow>
      bgColor (styleOf (ToLower uni prompt)) = ''#1a1a1a''
    \<and> textColor (styleOf (ToLower uni prompt)) = ''#dcdcdc''
    \<and> accentColor (styleOf (ToLower uni prompt)) = ''#8e44ad''"
    by (simp add: styleOf_def Let_def)
  have serif: "Contains (ToLower uni prompt) ''serif'' \<Longrightarrow>
      font (styleOf (ToLower uni prompt)) = ''Georgia, serif''"
    by (simp add: styleOf_def Let_def)
  show ?thesis
    using moody serif
    by (simp add: generateTemplates_files [OF assms] h1Content_def divContent_def)
qed

theorem later_keyword_wins_witness:
  \<open>map_of (cached \<lparr>cwd = [''srv'', ''app''], componentsDir = True, cachedDir = True,
          components = [], cached = [(''d1'', Dir [])], elsewhere = (\<lambda>_. False)\<rparr>) ''d1''
      = Some (Dir [])
   \<and> ToLower (\<lambda>s. s) ''Dark Moody, clean serif'' = ''dark moody, clean serif''
   \<and> Contains ''dark moody, clean serif'' ''dark''
   \<and> Contains ''dark moody, clean serif'' ''moody''
   \<and> Contains ''dark moody, clean serif'' ''clean''
   \<and> Contains ''dark moody, clean serif'' ''serif''
   \<and> ReadFile (generateTemplates (\<lambda>s. s)
         \<lparr>cwd = [''srv'', ''app''], componentsDir = True, cachedDir = True,
          components = [], cached = [(''d1'', Dir [])], elsewhere = (\<lambda>_. False)\<rparr>
         ''d1'' ''Dark Moody, clean serif'') ''d1'' ''h1.html''
       = Some ''<h1 style="color: #8e44ad; font-family: Georgia, serif; border-bottom: 2px solid #8e44ad;">{{.}}</h1>''
   \<and> ReadFile (generateTemplates (\<lambda>s. s)
         \<lparr>cwd = [''srv'', ''app''], componentsDir = True, cachedDir = True,
          components = [], cached = [(''d1'', Dir [])], elsewhere = (\<lambda>_. False)\<rparr>
         ''d1'' ''Dark Moody, clean serif'') ''d1'' ''div.html''
       = Some ''<div style="background: #1a1a1a; color: #dcdcdc; padding: 20px; border-radius: 8px; margin: 10px 0;">{{.}}</div>''\<close>
proof -
  have low: "ToLower (\<lambda>s. s) ''Dark Moody, clean serif'' = ''dark moody, clean serif''"
    by code_simp
  show ?thesis
    using later_keyword_wins [of "\<lparr>cwd = [''srv'', ''app''], componentsDir = True, cachedDir = True,
          components = [], cached = [(''d1'', Dir [])], elsewhere = (\<lambda>_. False)\<rparr>"
      "''d1''" "[]" "\<lambda>s. s" "''Dark Moody, clean serif''"]
    by (simp add: low)
qed

text \<open>The prompt "dark moody" gets the colours of the "moody" rule; "dark" alone gets those of "dark".\<close>

lemma dark_moody_example:
  \<open>styleOf (ToLower uni ''dark moody'') =
     \<lparr>bgColor = ''#1a1a1a'', textColor = ''#dcdcdc'', accentColor = ''#8e44ad'', font = ''sans-serif''\<rparr>
   \<and> styleOf (ToLower uni ''dark'') =
     \<lparr>bgColor = ''#2c3e50'', textColor = ''#ecf0f1'', accentColor = ''#e74c3c'', font = ''sans-serif''\<rparr>\<close>
proof -
  have l1: "ToLower uni ''dark moody'' = ''dark moody''"
    unfolding ToLower_def by code_simp
  have l2: "ToLower uni ''dark'' = ''dark''"
    unfolding ToLower_def by code_simp
  show ?thesis by (simp add: l1 l2 styleOf_def)
qed

section \<open>getOrGenerateDesign\<close>

lemma set_update_subset: "set (AList.update k v al) \<subseteq> insert (k, v) (set al)"
  by (induction al) auto

lemma update_mem: "(k, v) \<in> set (AList.update k v al)"
  by (induction al) auto

lemma scan_None_iff:
  "scan e prompt xs = None \<longleftrightarrow> (\<forall>(n, nd) \<in> set xs. \<not> promptMatches e prompt nd)"
  by (induction e prompt xs rule: scan.induct)
     (auto split: option.splits)

lemma scan_Some:
  "scan e prompt xs = Some n \<Longrightarrow> \<exists>nd. (n, nd) \<in> set xs \<and> promptMatches e prompt nd"
proof (induction e prompt xs rule: scan.induct)
  case (1 e prompt)
  then show ?case by simp
next
  case (2 e prompt name c files)
  then show ?case by auto
next
  case (3 e prompt name fl files)
  show ?case
  proof (cases "promptMatches e prompt (Dir fl)")
    case True
    with 3 show ?thesis by (auto split: option.splits if_splits)
  next
    case False
    with 3 have "scan e prompt files = Some n"
      by (auto split: option.splits if_splits)
    with 3 False show ?thesis by (auto split: option.splits if_splits)
  qed
qed

lemma set_ReadDir: "cachedDir fs \<Longrightarrow> set (ReadDir fs) = set (cached fs)"
  by (simp add: ReadDir_def)

lemma WriteFile_Dir:
  assumes "map_of (cached fs) d = Some (Dir fl)"
  shows "cached (WriteFile fs d name content)
           = AList.update d (Dir (AList.update name content fl)) (cached fs)"
    and "cachedDir (WriteFile fs d name content) = cachedDir fs
         \<and> componentsDir (WriteFile fs d name content) = componentsDir fs
         \<and> cwd (WriteFile fs d name content) = cwd fs
         \<and> components (WriteFile fs d name content) = components fs
         \<and> elsewhere (WriteFile fs d name content) = elsewhere fs"
    and "map_of (cached (WriteFile fs d name content)) d
           = Some (Dir (AList.update name content fl))"
  using assms by (simp_all add: WriteFile_def update_conv')

text \<open>The state after step 3 of getOrGenerateDesign has run.\<close>

lemma generated:
  fixes uni :: "string \<Rightarrow> string" and prompt :: string
  assumes mk: "MkdirAll fs u = Some fs1"
  defines "fs3 \<equiv> generateTemplates uni (WriteFile fs1 u ''prompt.txt'' prompt) u prompt"
  shows "\<exists>fl. map_of (cached fs3) u = Some (Dir fl)
            \<and> (u, Dir fl) \<in> set (cached fs3)
            \<and> map_of fl ''prompt.txt'' = Some prompt
            \<and> map_of fl ''h1.html'' = Some (h1Content (styleOf (ToLower uni prompt)))
            \<and> map_of fl ''div.html'' = Some (divContent (styleOf (ToLower uni prompt)))
            \<and> set (cached fs3) \<subseteq> insert (u, Dir fl) (insert (u, Dir []) (set (cached fs)))"
    and "cachedDir fs3" and "componentsDir fs3" and "cwd fs3 = cwd fs"
    and "components fs3 = components fs" and "elsewhere fs3 = elsewhere fs"
proof -
  from mk have e1: "cachedDir fs1" "componentsDir fs1" "cwd fs1 = cwd fs"
      "components fs1 = components fs" "elsewhere fs1 = elsewhere fs"
    by (auto simp: MkdirAll_def split: option.splits node.splits if_splits)
  from mk have s1: "set (cached fs1) \<subseteq> insert (u, Dir []) (set (cached fs))"
    by (auto simp: MkdirAll_def split: option.splits node.splits if_splits)
  from mk have "\<exists>fl1. map_of (cached fs1) u = Some (Dir fl1)"
    by (auto simp: MkdirAll_def map_add_def split: option.splits node.splits if_splits)
  then obtain fl1 where d1: "map_of (cached fs1) u = Some (Dir fl1)" ..
  let ?f2 = "WriteFile fs1 u ''prompt.txt'' prompt"
  let ?st = "styleOf (ToLower uni prompt)"
  let ?fl2 = "AList.update ''prompt.txt'' prompt fl1"
  let ?f3 = "WriteFile ?f2 u ''h1.html'' (h1Content ?st)"
  let ?fl3 = "AList.update ''h1.html'' (h1Content ?st) ?fl2"
  let ?fl4 = "AList.update ''div.html'' (divContent ?st) ?fl3"
  note w2 = WriteFile_Dir [OF d1, of "''prompt.txt''" prompt]
  note w3 = WriteFile_Dir [OF w2(3), of "''h1.html''" "h1Content ?st"]
  note w4 = WriteFile_Dir [OF w3(3), of "''div.html''" "divContent ?st"]
  have fs3: "fs3 = WriteFile ?f3 u ''div.html'' (divContent ?st)"
    by (simp add: fs3_def generateTemplates_def Let_def)
  have c3: "cached fs3 = AList.update u (Dir ?fl4) (cached fs1)"
    by (simp add: fs3 w4(1) w3(1) w2(1))
  have m: "map_of (cached fs3) u = Some (Dir ?fl4)"
    by (simp add: fs3 w4(3))
  have sub: "set (cached fs3) \<subseteq> insert (u, Dir ?fl4) (insert (u, Dir []) (set (cached fs)))"
    using set_update_subset [of u "Dir ?fl4" "cached fs1"] s1 unfolding c3 by blast
  have mem: "(u, Dir ?fl4) \<in> set (cached fs3)"
    unfolding c3 by (rule update_mem)
  have p: "map_of ?fl4 ''prompt.txt'' = Some prompt"
    "map_of ?fl4 ''h1.html'' = Some (h1Content ?st)"
    "map_of ?fl4 ''div.html'' = Some (divContent ?st)"
    by (simp_all add: update_conv')
  show "\<exists>fl. map_of (cached fs3) u = Some (Dir fl)
            \<and> (u, Dir fl) \<in> set (cached fs3)
            \<and> map_of fl ''prompt.txt'' = Some prompt
            \<and> map_of fl ''h1.html'' = Some (h1Content (styleOf (ToLower uni prompt)))
            \<and> map_of fl ''div.html'' = Some (divContent (styleOf (ToLower uni prompt)))
            \<and> set (cached fs3) \<subseteq> insert (u, Dir fl) (insert (u, Dir []) (set (cached fs)))"
    using m mem p sub by blast
  show "cachedDir fs3" "componentsDir fs3" "cwd fs3 = cwd fs"
    "components fs3 = components fs" "elsewhere fs3 = elsewhere fs"
    by (simp_all add: fs3 w4(2) w3(2) w2(2) e1)
qed

text \<open>
  C6 fails for a prompt of 32 bytes that filepath.Join cleans to components/cached itself.
  The prompt is "./" sixteen times, and nothing is named components when the first request
  comes. The first resolution finds no directory to return, generates the design and
  returns the identifier c4ca4238a0b923820dcc509a6f75849b; in doing so it makes
  components/cached. The second resolution of the same prompt, in the files the first one
  left, passes the test of step 1 (32 bytes, and os.Stat of components/cached now
  succeeds) and returns the prompt itself, not the identifier. The files are the same
  after the second resolution: no second directory is made.
\<close>

theorem second_resolution_returns_prompt:
  "dots = concat (replicate 16 ''./'')
   \<and> (let (id1, fs1) = getOrGenerateDesign env1 fs_fresh dots;
            (id2, fs2) = getOrGenerateDesign env1 fs1 dots
        in id1 = ''c4ca4238a0b923820dcc509a6f75849b''
           \<and> map fst (cached fs1) = [''c4ca4238a0b923820dcc509a6f75849b'']
           \<and> id2 = dots \<and> id2 \<noteq> id1
           \<and> cached fs2 = cached fs1 \<and> cachedDir fs2 \<and> componentsDir fs2)"
  by code_simp

text \<open>
  Where the second resolution does return the first one's identifier: for every prompt
  that is not 32 bytes long or holds no separator. The files are those of a working
  directory, in which components/cached has no entry while it does not exist.
\<close>

lemma splitPath_plain: "CHR ''/'' \<notin> set s \<Longrightarrow> splitPath s = [s]"
  by (induction s) auto

lemma Stat_plain:
  assumes "CHR ''/'' \<notin> set name" and "length name = 32"
  shows "Stat fs name \<longleftrightarrow>
           CHR 0x00 \<notin> set name \<and> cachedDir fs \<and> name \<in> fst ` set (cached fs)"
proof -
  have n: "name \<noteq> []" "name \<noteq> ''.''" "name \<noteq> ''..''"
    using assms(2) by auto
  have j: "Join [''components'', ''cached'', name] ''/'' = ''components/cached/'' @ name"
    by simp
  have s: "splitPath (''components/cached/'' @ name) = [''components'', ''cached'', name]"
    using assms(1) by (simp add: splitPath_plain)
  have c: "cleanElems [] [''components'', ''cached'', name] = [''components'', ''cached'', name]"
    using n by simp
  have p: "filepath_Join [''components'', ''cached'', name] = ''components/cached/'' @ name"
    using assms(1) n by (simp add: filepath_Join_def splitPath_plain)
  have r: "resolve (cwd fs) [''components'', ''cached'', name]
             = cwd fs @ [''components'', ''cached'', name]"
    by simp
  have e: "pathExists fs (cwd fs @ [''components'', ''cached'', name])
             \<longleftrightarrow> cachedDir fs \<and> name \<in> fst ` set (cached fs)"
    by (auto simp: pathExists_def inComponents_def map_of_eq_None_iff prefix_def)
  show ?thesis
    unfolding Stat_def Let_def p s c r e by auto
qed

lemma resolve_again_plain:
  assumes "getOrGenerateDesign e fs prompt = (ident, fs')"
    and plain: "length prompt = 32 \<Longrightarrow> CHR ''/'' \<notin> set prompt"
    and wf: "\<not> cachedDir fs \<Longrightarrow> cached fs = []"
  shows "getOrGenerateDesign e fs' prompt = (ident, fs')"
proof (cases "length prompt = 32 \<and> Stat fs prompt")
  case True
  with assms(1) show ?thesis by (auto simp: getOrGenerateDesign_def)
next
  case nofast: False
  show ?thesis
  proof (cases "scan e prompt (ReadDir fs)")
    case (Some name)
    with nofast assms(1) show ?thesis by (auto simp: getOrGenerateDesign_def)
  next
    case nomatch: None
    show ?thesis
    proof (cases "MkdirAll fs (generateUUID e)")
      case None
      with nofast nomatch assms(1) show ?thesis by (auto simp: getOrGenerateDesign_def)
    next
      case (Some fs1)
      let ?u = "generateUUID e"
      have res: "ident = ?u"
        "fs' = generateTemplates (uniToLower e) (WriteFile fs1 ?u ''prompt.txt'' prompt) ?u prompt"
        using nofast nomatch Some assms(1) by (auto simp: getOrGenerateDesign_def Let_def)
      from generated(1) [OF Some, of "uniToLower e" prompt] obtain fl where
        m: "map_of (cached fs') ?u = Some (Dir fl)"
        and mem: "(?u, Dir fl) \<in> set (cached fs')"
        and p: "map_of fl ''prompt.txt'' = Some prompt"
        and sub: "set (cached fs') \<subseteq> insert (?u, Dir fl) (insert (?u, Dir []) (set (cached fs)))"
        unfolding res by blast
      have cd: "cachedDir fs'"
        using generated(2) [OF Some, of "uniToLower e" prompt] unfolding res .
      have old: "\<forall>(n, nd) \<in> set (cached fs). \<not> promptMatches e prompt nd"
      proof (cases "cachedDir fs")
        case True
        with nomatch show ?thesis by (simp add: scan_None_iff set_ReadDir)
      next
        case False
        with wf show ?thesis by simp
      qed
      have new: "promptMatches e prompt (Dir fl)"
        by (simp add: p)
      have only: "promptMatches e prompt nd \<Longrightarrow> (n, nd) \<in> set (cached fs') \<Longrightarrow> n = ?u" for n nd
        using sub old by auto
      have "scan e prompt (ReadDir fs') \<noteq> None"
        unfolding scan_None_iff set_ReadDir [OF cd] using mem new by blast
      then obtain n where n: "scan e prompt (ReadDir fs') = Some n" by blast
      from scan_Some [OF n] only have sc: "scan e prompt (ReadDir fs') = Some ?u"
        using n by (auto simp: set_ReadDir [OF cd])
      show ?thesis
      proof (cases "length prompt = 32 \<and> Stat fs' prompt")
        case False
        then show ?thesis using sc res(1) by (auto simp: getOrGenerateDesign_def)
      next
        case True
        then have l: "length prompt = 32" and st: "Stat fs' prompt" by simp_all
        from plain [OF l] have ns: "CHR ''/'' \<notin> set prompt" .
        from st have z: "CHR 0x00 \<notin> set prompt" and "prompt \<in> fst ` set (cached fs')"
          by (simp_all add: Stat_plain [OF ns l])
        then have "prompt = ?u \<or> prompt \<in> fst ` set (cached fs)"
          using sub by force
        moreover have "prompt \<notin> fst ` set (cached fs)"
        proof (cases "cachedDir fs")
          case True
          with nofast l z show ?thesis by (simp add: Stat_plain [OF ns l])
        next
          case False
          with wf show ?thesis by simp
        qed
        ultimately have "prompt = ?u" by blast
        with True res(1) show ?thesis by (simp add: getOrGenerateDesign_def)
      qed
    qed
  qed
qed

lemma length_EncodeToString: "length (EncodeToString src) = 2 * length src"
  by (induction src) (simp_all add: EncodeToString_def)

lemma generate_fresh:
  assumes "\<not> (length prompt = 32 \<and> Stat fs prompt)"
    and "scan e prompt (ReadDir fs) = None"
    and "MkdirAll fs (generateUUID e) \<noteq> None"
  shows "fst (getOrGenerateDesign e fs prompt) = generateUUID e"
    and "ReadFile (snd (getOrGenerateDesign e fs prompt)) (generateUUID e) ''prompt.txt''
           = Some prompt"
    and "ReadFile (snd (getOrGenerateDesign e fs prompt)) (generateUUID e) ''h1.html''
           = Some (h1Content (styleOf (ToLower (uniToLower e) prompt)))"
    and "ReadFile (snd (getOrGenerateDesign e fs prompt)) (generateUUID e) ''div.html''
           = Some (divContent (styleOf (ToLower (uniToLower e) prompt)))"
    and "MkdirAll (snd (getOrGenerateDesign e fs prompt)) (generateUUID e) \<noteq> None"
proof -
  from assms(3) obtain fs1 where mk: "MkdirAll fs (generateUUID e) = Some fs1" by blast
  let ?u = "generateUUID e"
  let ?fs3 = "generateTemplates (uniToLower e) (WriteFile fs1 ?u ''prompt.txt'' prompt) ?u prompt"
  have res: "getOrGenerateDesign e fs prompt = (?u, ?fs3)"
    using assms(1,2) mk by (auto simp: getOrGenerateDesign_def Let_def)
  from generated [OF mk, of "uniToLower e" prompt] obtain fl where
    m: "map_of (cached ?fs3) ?u = Some (Dir fl)"
    and p: "map_of fl ''prompt.txt'' = Some prompt"
      "map_of fl ''h1.html'' = Some (h1Content (styleOf (ToLower (uniToLower e) prompt)))"
      "map_of fl ''div.html'' = Some (divContent (styleOf (ToLower (uniToLower e) prompt)))"
    by blast
  show "fst (getOrGenerateDesign e fs prompt) = generateUUID e"
    by (simp add: res)
  show "ReadFile (snd (getOrGenerateDesign e fs prompt)) (generateUUID e) ''prompt.txt''
           = Some prompt"
    by (simp add: res ReadFile_def m p)
  show "ReadFile (snd (getOrGenerateDesign e fs prompt)) (generateUUID e) ''h1.html''
           = Some (h1Content (styleOf (ToLower (uniToLower e) prompt)))"
    by (simp add: res ReadFile_def m p)
  show "ReadFile (snd (getOrGenerateDesign e fs prompt)) (generateUUID e) ''div.html''
           = Some (divContent (styleOf (ToLower (uniToLower e) prompt)))"
    by (simp add: res ReadFile_def m p)
  show "MkdirAll (snd (getOrGenerateDesign e fs prompt)) (generateUUID e) \<noteq> None"
    using generated(2) [OF mk, of "uniToLower e" prompt]
    by (simp add: res MkdirAll_def m)
qed

text \<open>
  C10. generateUUID depends on nothing but the process: it is the hexadecimal text of the
  MD5 digest of the decimal process id, 32 characters long. So when two prompts each
  reach step 3 of getOrGenerateDesign in one process, one after the other, both get this
  identifier, and the second generation replaces the prompt.txt, h1.html and div.html that
  the first one wrote.
\<close>

theorem same_directory_for_every_design:
  assumes "length (md5Sum e (decimal (getpid e))) = 16"
    and "\<not> (length p1 = 32 \<and> Stat fs p1)"
    and "scan e p1 (ReadDir fs) = None"
    and "MkdirAll fs (generateUUID e) \<noteq> None"
    and "fs1 = snd (getOrGenerateDesign e fs p1)"
    and "\<not> (length p2 = 32 \<and> Stat fs1 p2)"
    and "scan e p2 (ReadDir fs1) = None"
    and "fs2 = snd (getOrGenerateDesign e fs1 p2)"
  shows "generateUUID e = EncodeToString (md5Sum e (decimal (getpid e)))
       \<and> length (generateUUID e) = 32
       \<and> fst (getOrGenerateDesign e fs p1) = generateUUID e
       \<and> fst (getOrGenerateDesign e fs1 p2) = generateUUID e
       \<and> ReadFile fs1 (generateUUID e) ''prompt.txt'' = Some p1
       \<and> ReadFile fs1 (generateUUID e) ''h1.html''
           = Some (h1Content (styleOf (ToLower (uniToLower e) p1)))
       \<and> ReadFile fs1 (generateUUID e) ''div.html''
           = Some (divContent (styleOf (ToLower (uniToLower e) p1)))
       \<and> ReadFile fs2 (generateUUID e) ''prompt.txt'' = Some p2
       \<and> ReadFile fs2 (generateUUID e) ''h1.html''
           = Some (h1Content (styleOf (ToLower (uniToLower e) p2)))
       \<and> ReadFile fs2 (generateUUID e) ''div.html''
           = Some (divContent (styleOf (ToLower (uniToLower e) p2)))"
proof -
  note first = generate_fresh [OF assms(2) assms(3) assms(4)]
  have mk1: "MkdirAll fs1 (generateUUID e) \<noteq> None"
    using first(5) by (simp add: assms(5))
  note second = generate_fresh [OF assms(6) assms(7) mk1]
  have len: "length (generateUUID e) = 32"
    by (simp add: generateUUID_def length_EncodeToString assms(1))
  show ?thesis
    using first(1-4) second(1-4) len
    by (simp add: assms(5) assms(8) generateUUID_def)
qed

theorem same_directory_for_every_design_witness:
  "length (md5Sum env1 (decimal (getpid env1))) = 16
   \<and> \<not> (length ''dark'' = 32 \<and> Stat fs_empty ''dark'')
   \<and> scan env1 ''dark'' (ReadDir fs_empty) = None
   \<and> MkdirAll fs_empty (generateUUID env1) \<noteq> None
   \<and> \<not> (length ''serif'' = 32 \<and> Stat (snd (getOrGenerateDesign env1 fs_empty ''dark'')) ''serif'')
   \<and> scan env1 ''serif'' (ReadDir (snd (getOrGenerateDesign env1 fs_empty ''dark''))) = None
   \<and> generateUUID env1 = ''c4ca4238a0b923820dcc509a6f75849b''
   \<and> fst (getOrGenerateDesign env1 fs_empty ''dark'') = ''c4ca4238a0b923820dcc509a6f75849b''
   \<and> fst (getOrGenerateDesign env1 (snd (getOrGenerateDesign env1 fs_empty ''dark'')) ''serif'')
       = ''c4ca4238a0b923820dcc509a6f75849b''
   \<and> ReadFile (snd (getOrGenerateDesign env1 fs_empty ''dark''))
        ''c4ca4238a0b923820dcc509a6f75849b'' ''prompt.txt'' = Some ''dark''
   \<and> ReadFile (snd (getOrGenerateDesign env1 (snd (getOrGenerateDesign env1 fs_empty ''dark'')) ''serif''))
        ''c4ca4238a0b923820dcc509a6f75849b'' ''prompt.txt'' = Some ''serif''"
proof -
  have h1: "length (md5Sum env1 (decimal (getpid env1))) = 16"
    by (simp add: env1_def)
  have h2: "\<not> (length ''dark'' = 32 \<and> Stat fs_empty ''dark'')"
    by simp
  have h3: "scan env1 ''dark'' (ReadDir fs_empty) = None"
    by (simp add: ReadDir_def fs_empty_def)
  have h4: "MkdirAll fs_empty (generateUUID env1) \<noteq> None"
    by (simp add: MkdirAll_def fs_empty_def)
  have h6: "\<not> (length ''serif'' = 32
                \<and> Stat (snd (getOrGenerateDesign env1 fs_empty ''dark'')) ''serif'')"
    by simp
  have h7: "scan env1 ''serif'' (ReadDir (snd (getOrGenerateDesign env1 fs_empty ''dark''))) = None"
    by code_simp
  have u: "generateUUID env1 = ''c4ca4238a0b923820dcc509a6f75849b''"
    by code_simp
  note t = same_directory_for_every_design [OF h1 h2 h3 h4 refl h6 h7 refl, THEN conjunct2]
  show ?thesis
    using t h1 h2 h3 h4 h6 h7 by (simp add: u)
qed

section \<open>The first pass keeps the last value\<close>

lemma map_of_collectTag:
  "map_of (collectTag templates nsd (k, v)) tag =
     (if \<not> standardTags k \<and> \<not> hasTemplate templates k \<and> k = tag then Some v
      else map_of nsd tag)"
  by (auto simp: collectTag_def update_conv')

lemma map_of_foldl_collectTag:
  "map_of (foldl (collectTag templates) nsd visited) tag =
     (if \<not> standardTags tag \<and> \<not> hasTemplate templates tag
      then (case map_of (rev visited) tag of Some v \<Rightarrow> Some v | None \<Rightarrow> map_of nsd tag)
      else map_of nsd tag)"
proof (induction visited arbitrary: nsd)
  case Nil
  show ?case by simp
next
  case (Cons entry visited)
  obtain k v where entry: "entry = (k, v)" by (cases entry)
  show ?case
    by (auto simp: Cons.IH entry map_of_collectTag map_add_def split: option.splits)
qed

lemma distinct_foldl_collectTag:
  "distinct (map fst nsd) \<Longrightarrow> distinct (map fst (foldl (collectTag templates) nsd visited))"
proof (induction visited arbitrary: nsd)
  case Nil
  then show ?case by simp
next
  case (Cons entry visited)
  have "distinct (map fst (collectTag templates nsd entry))"
    using Cons.prems by (cases entry) (simp add: collectTag_def distinct_update)
  then show ?case by (simp add: Cons.IH)
qed

lemma map_of_visited:
  assumes "mset visited = mset item" and "distinct (map fst item)"
  shows "map_of (rev visited) = map_of item"
proof -
  have "mset (map fst visited) = mset (map fst item)"
    using assms(1) by (metis mset_map)
  then have "distinct (map fst visited)"
    using assms(2) by (metis mset_eq_imp_distinct_iff)
  then have "distinct (map fst (rev visited))" by (simp add: rev_map [symmetric])
  moreover have "set (rev visited) = set item"
    using assms(1) by (metis mset_eq_setD set_rev)
  ultimately show ?thesis
    using assms(2) by (simp add: map_of_inject_set)
qed

text \<open>
  Inside renderHTML a tag that occurs in several items as non-standard is stored once,
  with the value of the last of these items in the order of the slice \<open>items\<close>,
  whatever the order in which each item is visited.
\<close>

lemma firstPass_last_write_wins:
  assumes "\<And>j m. mset (rng (FirstPass j) m) = mset m"
    and "\<And>item. item \<in> set items \<Longrightarrow> distinct (map fst item)"
    and "distinct (map fst nsd)"
  shows "map_of (firstPass rng templates i nsd items) tag =
           (if \<not> standardTags tag \<and> \<not> hasTemplate templates tag
            then (case lastSeen items tag of Some v \<Rightarrow> Some v | None \<Rightarrow> map_of nsd tag)
            else map_of nsd tag)"
    and "distinct (map fst (firstPass rng templates i nsd items))"
  using assms(2,3)
proof (induction items arbitrary: i nsd)
  case Nil
  {
    case 1
    show ?case by simp
  next
    case 2
    then show ?case by simp
  }
next
  case (Cons item items)
  {
    case 1
    let ?nsd = "foldl (collectTag templates) nsd (rng (FirstPass i) item)"
    have d: "distinct (map fst ?nsd)"
      using 1(2) by (rule distinct_foldl_collectTag)
    have m: "map_of (rev (rng (FirstPass i) item)) = map_of item"
      using assms(1) 1(1) by (intro map_of_visited) simp_all
    show ?case
      using Cons.IH(1) [of ?nsd "Suc i"] 1(1) d
      by (simp add: map_of_foldl_collectTag m split: option.splits)
  next
    case 2
    let ?nsd = "foldl (collectTag templates) nsd (rng (FirstPass i) item)"
    have d: "distinct (map fst ?nsd)"
      using 2(2) by (rule distinct_foldl_collectTag)
    show ?case
      using Cons.IH(2) [of ?nsd "Suc i"] 2(1) d by simp
  }
qed

lemma firstPass_foldl:
  "firstPass rng templates i nsd items =
     foldl (collectTag templates) nsd
       (concat (map (\<lambda>(j, item). rng (FirstPass j) item) (enumerate i items)))"
  by (induction items arbitrary: i nsd) simp_all

lemma map_of_rev_None: "map_of (rev xs) k = None \<longleftrightarrow> k \<notin> fst ` set xs"
  by (simp add: map_of_eq_None_iff)

text \<open>
  A tag is a key of nonStandardData after the first pass exactly when it is neither
  standard nor has a template and occurs in one of the items.
\<close>

lemma firstPass_keys:
  assumes "\<And>j m. set (rng (FirstPass j) m) = set m"
  shows "map_of (firstPass rng templates 0 [] items) tag \<noteq> None \<longleftrightarrow>
           \<not> standardTags tag \<and> \<not> hasTemplate templates tag
           \<and> (\<exists>item \<in> set items. tag \<in> fst ` set item)"
proof -
  let ?V = "concat (map (\<lambda>(j, item). rng (FirstPass j) item) (enumerate 0 items))"
  have "set ?V = \<Union> (set ` set items)"
  proof -
    have "set ?V = (\<Union>x \<in> set (enumerate 0 items). set (snd x))"
      by (auto simp: assms case_prod_beta)
    also have "\<dots> = \<Union> (set ` snd ` set (enumerate 0 items))" by blast
    also have "snd ` set (enumerate 0 items) = set items"
      by (metis map_snd_enumerate set_map)
    finally show ?thesis .
  qed
  then have k: "tag \<in> fst ` set ?V \<longleftrightarrow> (\<exists>item \<in> set items. tag \<in> fst ` set item)"
    by auto
  have "map_of (firstPass rng templates 0 [] items) tag \<noteq> None \<longleftrightarrow>
          \<not> standardTags tag \<and> \<not> hasTemplate templates tag \<and> map_of (rev ?V) tag \<noteq> None"
    by (simp add: firstPass_foldl map_of_foldl_collectTag split: option.splits)
  then show ?thesis
    using k by (simp add: map_of_rev_None)
qed

section \<open>The decision for one tag\<close>

lemma secondPass_concat:
  "secondPass L rng templates i items =
     concat (map (renderTag L templates)
       (concat (map (\<lambda>(j, item). rng (SecondPass j) item) (enumerate i items))))"
  by (induction items arbitrary: i) simp_all

lemma renderHTML_parts:
  \<open>renderHTML L rng templates aiDesign items flags =
     plain_head
     @ scriptBlock L rng (firstPass rng templates 0 [] items)
     @ (if aiDesign then design_style else [])
     @ ''</head><body><div class="container">''
     @ concat (map (renderTag L templates)
         (concat (map (\<lambda>(j, item). rng (SecondPass j) item) (enumerate 0 items))))
     @ ''</div></body></html>''\<close>
  unfolding renderHTML_def htmlStart_def plain_head_def design_style_def secondPass_concat
  by simp

lemma scriptBlock_lines:
  \<open>scriptBlock L rng collected =
     (if collected = [] then []
      else lines_of [''<script>'',
                     ''        // Non-standard tag content accessible to client'',
                     ''        var customContent = {};'']
           @ concat (map (\<lambda>(tag, content).
                 ''        customContent['' @ [CHR 0x27] @ tag @ [CHR 0x27] @ ''] = ''
                 @ Marshal (marshalFloat L) content @ '';'' @ [nl])
               (rng ScriptLoop collected))
           @ lines_of [''    </script>''])\<close>
proof -
  have "scriptLine L = (\<lambda>(tag, content).
          ''        customContent['' @ [CHR 0x27] @ tag @ [CHR 0x27] @ ''] = ''
          @ Marshal (marshalFloat L) content @ '';'' @ [nl])"
    by (rule ext) (simp add: scriptLine_def)
  then show ?thesis
    by (simp add: scriptBlock_def)
qed

lemma handler_body:
  assumes "Unmarshal L data = Inr d"
  shows "fst (handler L e rng aiDesign srv ''/'' (Some data)) =
           \<lparr>status = 200,
            body = renderHTML L rng (loaded (snd (handler L e rng aiDesign srv ''/'' (Some data))))
                     aiDesign (contentItemsOf (rng HandlerLoop d)) (flagsOf d)\<rparr>"
  using assms by (simp add: handler_def Let_def)

lemma handler_registry_design_off:
  assumes "Unmarshal L data = Inr d"
  shows "snd (handler L e rng False srv path (Some data)) = srv"
  using assms
  by (simp add: handler_def Let_def split: option.splits)

text \<open>
  C3. For one entry (tag, value) of an item, the second pass decides in this order: the
  template named tag.html if the registry has it; else the template named tag if the
  registry has it; else, for a standard tag, the builtin element; else it writes nothing.
  The first pass stores the entry in nonStandardData in the last case and in no other:
  after the first pass a tag is a key of nonStandardData exactly when it occurs in an
  item, has no template under either name and is not a standard tag.

  These decisions are what the response is made of. The script block has one line
  \<open>customContent['tag'] = value;\<close> for each entry of nonStandardData after the
  first pass, so for exactly those tags, and is absent when there is none. The body
  that renderHTML writes between the opening of the container and its closing is the
  bytes decided for each entry of each item, in the order visited, and nothing else. The
  body of the response of handler is what renderHTML writes for the content items under
  the registry in force, which with design mode off is the registry loaded before the
  request.
\<close>

theorem tag_resolution_precedence:
  assumes "\<And>s m. mset (rng s m) = mset m"
  shows
  \<open>(\<forall>tmpl. Lookup templates (tag @ ''.html'') = Some tmpl \<longrightarrow>
       renderTag L templates (tag, content) = executeTemplate L tmpl tag content
     \<and> collectTag templates nonStandardData (tag, content) = nonStandardData)
 \<and> (\<forall>tmpl. Lookup templates (tag @ ''.html'') = None \<and> Lookup templates tag = Some tmpl \<longrightarrow>
       renderTag L templates (tag, content) = executeTemplate L tmpl tag content
     \<and> collectTag templates nonStandardData (tag, content) = nonStandardData)
 \<and> (Lookup templates (tag @ ''.html'') = None \<and> Lookup templates tag = None
      \<and> standardTags tag \<longrightarrow>
       renderTag L templates (tag, content) = builtin L tag content
     \<and> collectTag templates nonStandardData (tag, content) = nonStandardData)
 \<and> (Lookup templates (tag @ ''.html'') = None \<and> Lookup templates tag = None
      \<and> \<not> standardTags tag \<longrightarrow>
       renderTag L templates (tag, content) = []
     \<and> collectTag templates nonStandardData (tag, content)
         = AList.update tag content nonStandardData)
 \<and> ((map_of (firstPass rng templates 0 [] items) tag \<noteq> None) =
      (Lookup templates (tag @ ''.html'') = None \<and> Lookup templates tag = None
       \<and> \<not> standardTags tag \<and> (\<exists>item \<in> set items. tag \<in> fst ` set item)))
 \<and> ((tag \<in> fst ` set (rng ScriptLoop (firstPass rng templates 0 [] items))) =
      (Lookup templates (tag @ ''.html'') = None \<and> Lookup templates tag = None
       \<and> \<not> standardTags tag \<and> (\<exists>item \<in> set items. tag \<in> fst ` set item)))
 \<and> scriptBlock L rng collected =
     (if collected = [] then []
      else lines_of [''<script>'',
                     ''        // Non-standard tag content accessible to client'',
                     ''        var customContent = {};'']
           @ concat (map (\<lambda>(tag, content).
                 ''        customContent['' @ [CHR 0x27] @ tag @ [CHR 0x27] @ ''] = ''
                 @ Marshal (marshalFloat L) content @ '';'' @ [nl])
               (rng ScriptLoop collected))
           @ lines_of [''    </script>''])
 \<and> renderHTML L rng templates aiDesign items flags =
     plain_head
     @ scriptBlock L rng (firstPass rng templates 0 [] items)
     @ (if aiDesign then design_style else [])
     @ ''</head><body><div class="container">''
     @ concat (map (renderTag L templates)
         (concat (map (\<lambda>(j, item). rng (SecondPass j) item) (enumerate 0 items))))
     @ ''</div></body></html>''
 \<and> (Unmarshal L data = Inr d \<longrightarrow>
      fst (handler L e rng aiDesign srv ''/'' (Some data)) =
        \<lparr>status = 200,
         body = renderHTML L rng (loaded (snd (handler L e rng aiDesign srv ''/'' (Some data))))
                  aiDesign (contentItemsOf (rng HandlerLoop d)) (flagsOf d)\<rparr>
    \<and> snd (handler L e rng False srv ''/'' (Some data)) = srv)\<close>
proof -
  have one:
    "(\<forall>tmpl. Lookup templates (tag @ ''.html'') = Some tmpl \<longrightarrow>
         renderTag L templates (tag, content) = executeTemplate L tmpl tag content
       \<and> collectTag templates nonStandardData (tag, content) = nonStandardData)
   \<and> (\<forall>tmpl. Lookup templates (tag @ ''.html'') = None \<and> Lookup templates tag = Some tmpl \<longrightarrow>
         renderTag L templates (tag, content) = executeTemplate L tmpl tag content
       \<and> collectTag templates nonStandardData (tag, content) = nonStandardData)
   \<and> (Lookup templates (tag @ ''.html'') = None \<and> Lookup templates tag = None
        \<and> standardTags tag \<longrightarrow>
         renderTag L templates (tag, content) = builtin L tag content
       \<and> collectTag templates nonStandardData (tag, content) = nonStandardData)
   \<and> (Lookup templates (tag @ ''.html'') = None \<and> Lookup templates tag = None
        \<and> \<not> standardTags tag \<longrightarrow>
         renderTag L templates (tag, content) = []
       \<and> collectTag templates nonStandardData (tag, content)
           = AList.update tag content nonStandardData)"
    by (simp add: renderTag_def collectTag_def hasTemplate_def)
  have p: "set (rng s m) = set m" for s m
    using assms [of s m] by (rule mset_eq_setD)
  have all: "(map_of (firstPass rng templates 0 [] items) tag \<noteq> None) =
      (Lookup templates (tag @ ''.html'') = None \<and> Lookup templates tag = None
       \<and> \<not> standardTags tag \<and> (\<exists>item \<in> set items. tag \<in> fst ` set item))"
    using firstPass_keys [where rng = rng and templates = templates and items = items
        and tag = tag, OF p]
    by (auto simp: hasTemplate_def)
  have "(tag \<in> fst ` set (rng ScriptLoop (firstPass rng templates 0 [] items))) =
        (map_of (firstPass rng templates 0 [] items) tag \<noteq> None)"
    by (simp add: p map_of_eq_None_iff)
  with all have chan:
    "(tag \<in> fst ` set (rng ScriptLoop (firstPass rng templates 0 [] items))) =
      (Lookup templates (tag @ ''.html'') = None \<and> Lookup templates tag = None
       \<and> \<not> standardTags tag \<and> (\<exists>item \<in> set items. tag \<in> fst ` set item))"
    by simp
  have h: "Unmarshal L data = Inr d \<longrightarrow>
      fst (handler L e rng aiDesign srv ''/'' (Some data)) =
        \<lparr>status = 200,
         body = renderHTML L rng (loaded (snd (handler L e rng aiDesign srv ''/'' (Some data))))
                  aiDesign (contentItemsOf (rng HandlerLoop d)) (flagsOf d)\<rparr>
    \<and> snd (handler L e rng False srv ''/'' (Some data)) = srv"
    using handler_body [of L data d e rng aiDesign srv]
      handler_registry_design_off [of L data d e rng srv "''/''"]
    by blast
  show ?thesis
    apply (intro conjI)
    using one apply blast
    using one apply blast
    using one apply blast
    using one apply blast
    apply (rule all)
    apply (rule chan)
    apply (rule scriptBlock_lines)
    apply (rule renderHTML_parts)
    apply (rule h)
    done
qed

theorem tag_resolution_precedence_witness:
  \<open>(\<forall>s m. mset (in_order s m) = mset m)
   \<and> Lookup reg_card (''card'' @ ''.html'') = Some ''<div class=card>suffixed</div>''
   \<and> Lookup reg_card ''card'' = Some ''<div class=card>bare</div>''
   \<and> renderTag lib_text reg_card (''card'', JStr ''x'') = ''<div class=card>suffixed</div>''
   \<and> collectTag reg_card [] (''card'', JStr ''x'' :: nat json) = []
   \<and> Lookup reg_card (''badge'' @ ''.html'') = None
   \<and> Lookup reg_card ''badge'' = Some ''<b>badge</b>''
   \<and> renderTag lib_text reg_card (''badge'', JStr ''w'') = ''<b>badge</b>''
   \<and> collectTag reg_card [] (''badge'', JStr ''w'' :: nat json) = []
   \<and> Lookup reg_card (''h2'' @ ''.html'') = None \<and> Lookup reg_card ''h2'' = None
   \<and> standardTags ''h2''
   \<and> renderTag lib_text reg_card (''h2'', JStr ''y'') = ''<h2>y</h2>''
   \<and> collectTag reg_card [] (''h2'', JStr ''y'' :: nat json) = []
   \<and> Lookup reg_card (''widget'' @ ''.html'') = None \<and> Lookup reg_card ''widget'' = None
   \<and> \<not> standardTags ''widget''
   \<and> renderTag lib_text reg_card (''widget'', JStr ''z'') = []
   \<and> collectTag reg_card [] (''widget'', JStr ''z'' :: nat json) = [(''widget'', JStr ''z'')]
   \<and> (\<exists>item \<in> set (contentItemsOf doc_card). ''widget'' \<in> fst ` set item)
   \<and> map_of (firstPass in_order reg_card 0 [] (contentItemsOf doc_card)) ''widget'' \<noteq> None
   \<and> map_of (firstPass in_order reg_card 0 [] (contentItemsOf doc_card)) ''card'' = None
   \<and> map_of (firstPass in_order reg_card 0 [] (contentItemsOf doc_card)) ''badge'' = None
   \<and> map_of (firstPass in_order reg_card 0 [] (contentItemsOf doc_card)) ''h2'' = None
   \<and> fst ` set (in_order ScriptLoop (firstPass in_order reg_card 0 [] (contentItemsOf doc_card)))
       = {''widget''}
   \<and> scriptBlock lib_text in_order [(''widget'', JStr ''z'')]
       = lines_of [''<script>'',
                   ''        // Non-standard tag content accessible to client'',
                   ''        var customContent = {};'',
                   ''        customContent['widget'] = "z";'',
                   ''    </script>'']
   \<and> renderHTML lib_text in_order reg_card False (contentItemsOf doc_card) None
       = plain_head
         @ lines_of [''<script>'',
                     ''        // Non-standard tag content accessible to client'',
                     ''        var customContent = {};'',
                     ''        customContent['widget'] = "z";'',
                     ''    </script>'']
         @ ''</head><body><div class="container">''
         @ ''<div class=card>suffixed</div><h2>y</h2><b>badge</b>''
         @ ''</div></body></html>''
   \<and> Unmarshal (lib_of doc_card) ''index.json'' = Inr doc_card
   \<and> loaded (snd (handler (lib_of doc_card) env1 in_order False srv_card ''/'' (Some ''index.json'')))
       = reg_card
   \<and> fst (handler (lib_of doc_card) env1 in_order False srv_card ''/'' (Some ''index.json''))
       = \<lparr>status = 200,
          body = plain_head
                 @ lines_of [''<script>'',
                             ''        // Non-standard tag content accessible to client'',
                             ''        var customContent = {};'',
                             ''        customContent['widget'] = "z";'',
                             ''    </script>'']
                 @ ''</head><body><div class="container">''
                 @ ''<div class=card>suffixed</div><h2>y</h2><b>badge</b>''
                 @ ''</div></body></html>''\<rparr>\<close>
proof -
  let ?items = "contentItemsOf doc_card"
  let ?L = "lib_of doc_card"
  have p: "mset (in_order s m) = mset m" for s m
    by (simp add: in_order_def)
  have l: "Lookup reg_card ''card.html'' = Some ''<div class=card>suffixed</div>''"
    "Lookup reg_card ''card'' = Some ''<div class=card>bare</div>''"
    "Lookup reg_card ''badge.html'' = None"
    "Lookup reg_card ''badge'' = Some ''<b>badge</b>''"
    "Lookup reg_card ''h2.html'' = None" "Lookup reg_card ''h2'' = None"
    "Lookup reg_card ''widget.html'' = None" "Lookup reg_card ''widget'' = None"
    by (simp_all add: Lookup_def reg_card_def)
  have s: "standardTags ''h2''" "\<not> standardTags ''widget''"
    by (simp_all add: standardTags_def)
  have e: "executeTemplate lib_text t tag (JStr v) = t" for t tag v
    by (simp add: executeTemplate_def lib_text_def)
  have b: "builtin lib_text ''h2'' (JStr ''y'') = ''<h2>y</h2>''"
    by (simp add: builtin_def)
  have u: "Unmarshal ?L ''index.json'' = Inr doc_card"
    by (simp add: lib_of_def)
  have i: "?items = [[(''card'', JStr ''x''), (''h2'', JStr ''y'')],
                     [(''widget'', JStr ''z''), (''badge'', JStr ''w'')]]"
    by (simp add: doc_card_def)
  have f: "firstPass in_order reg_card 0 [] ?items = [(''widget'', JStr ''z'')]"
    unfolding i by (simp add: in_order_def collectTag_def hasTemplate_def l s)
  have ld: "loaded srv_card = reg_card"
    by (simp add: srv_card_def)
  note w = tag_resolution_precedence [where rng = in_order and templates = reg_card
          and tag = "''widget''" and L = lib_text and content = "JStr ''z''"
          and nonStandardData = "[]" and items = ?items and collected = "[(''widget'', JStr ''z'')]"
          and aiDesign = False and flags = None, OF p]
  note c = tag_resolution_precedence [where rng = in_order and templates = reg_card
          and tag = "''card''" and L = lib_text and content = "JStr ''x''"
          and nonStandardData = "[]" and items = ?items, OF p]
  note g = tag_resolution_precedence [where rng = in_order and templates = reg_card
          and tag = "''badge''" and L = lib_text and content = "JStr ''w''"
          and nonStandardData = "[]" and items = ?items, OF p]
  note h = tag_resolution_precedence [where rng = in_order and templates = reg_card
          and tag = "''h2''" and L = ?L and content = "JStr ''y''"
          and nonStandardData = "[]" and items = ?items and collected = "[(''widget'', JStr ''z'')]"
          and aiDesign = False and flags = "flagsOf doc_card" and data = "''index.json''"
          and d = doc_card and e = env1 and srv = srv_card, OF p]
  have sb: \<open>scriptBlock lib_text in_order [(''widget'', JStr ''z'')]
       = lines_of [''<script>'',
                   ''        // Non-standard tag content accessible to client'',
                   ''        var customContent = {};'',
                   ''        customContent['widget'] = "z";'',
                   ''    </script>'']\<close>
    by code_simp
  have r: \<open>renderHTML lib_text in_order reg_card False ?items None
       = plain_head
         @ lines_of [''<script>'',
                     ''        // Non-standard tag content accessible to client'',
                     ''        var customContent = {};'',
                     ''        customContent['widget'] = "z";'',
                     ''    </script>'']
         @ ''</head><body><div class="container">''
         @ ''<div class=card>suffixed</div><h2>y</h2><b>badge</b>''
         @ ''</div></body></html>''\<close>
    by code_simp
  have hb: \<open>fst (handler ?L env1 in_order False srv_card ''/'' (Some ''index.json''))
       = \<lparr>status = 200,
          body = plain_head
                 @ lines_of [''<script>'',
                             ''        // Non-standard tag content accessible to client'',
                             ''        var customContent = {};'',
                             ''        customContent['widget'] = "z";'',
                             ''    </script>'']
                 @ ''</head><body><div class="container">''
                 @ ''<div class=card>suffixed</div><h2>y</h2><b>badge</b>''
                 @ ''</div></body></html>''\<rparr>\<close>
    by code_simp
  have hs: "loaded (snd (handler ?L env1 in_order False srv_card ''/'' (Some ''index.json'')))
              = reg_card"
    using h u by (simp add: ld)
  have ch: "fst ` set (in_order ScriptLoop (firstPass in_order reg_card 0 [] ?items)) = {''widget''}"
    by (simp add: f in_order_def)
  have per: "renderTag lib_text reg_card (''card'', JStr ''x'') = ''<div class=card>suffixed</div>''
     \<and> collectTag reg_card [] (''card'', JStr ''x'' :: nat json) = []
     \<and> renderTag lib_text reg_card (''badge'', JStr ''w'') = ''<b>badge</b>''
     \<and> collectTag reg_card [] (''badge'', JStr ''w'' :: nat json) = []
     \<and> renderTag lib_text reg_card (''widget'', JStr ''z'') = []
     \<and> collectTag reg_card [] (''widget'', JStr ''z'' :: nat json) = [(''widget'', JStr ''z'')]"
    using w c g by (simp add: l s e)
  have per2: "renderTag lib_text reg_card (''h2'', JStr ''y'') = ''<h2>y</h2>''
     \<and> collectTag reg_card [] (''h2'', JStr ''y'' :: nat json) = []"
    using tag_resolution_precedence [where rng = in_order and templates = reg_card
          and tag = "''h2''" and L = lib_text and content = "JStr ''y''"
          and nonStandardData = "[]" and items = ?items, OF p]
    by (simp add: l s b)
  have ex: "\<exists>item \<in> set ?items. ''widget'' \<in> fst ` set item"
    unfolding i by simp
  show ?thesis
    using per per2 ch by (simp add: p l s f sb r u hs hb ex)
qed

section \<open>Builtin elements\<close>

text \<open>
  C4 fails on this renderHTML: the builtin branch formats the value with %v into the
  element and calls no escaping function. For the document
  \<^verbatim>\<open>{"1": {"p": "<script>alert(1)</script> & more"}}\<close>
  the body of the response holds the text of the value byte for byte between the tags of
  the p element, with its less-than, greater-than and ampersand characters.
\<close>

theorem builtin_text_not_escaped:
  \<open>fst (handler (lib_of doc_markup) env1 in_order False srv0 ''/'' (Some ''index.json''))
     = \<lparr>status = 200,
        body = plain_head @ ''</head><body><div class="container">''
               @ ''<p><script>alert(1)</script> & more</p>''
               @ ''</div></body></html>''\<rparr>
   \<and> HTMLEscapeString ''<script>alert(1)</script> & more''
       = ''&lt;script&gt;alert(1)&lt;/script&gt; &amp; more''
   \<and> \<not> Contains (body (fst (handler (lib_of doc_markup) env1 in_order False srv0 ''/''
                  (Some ''index.json''))))
         ''&lt;script&gt;alert(1)&lt;/script&gt; &amp; more''\<close>
  by code_simp

section \<open>Marshal writes JSON\<close>

lemma json_chars_append: "json_chars xs \<Longrightarrow> json_chars ys \<Longrightarrow> json_chars (xs @ ys)"
  by (induction xs rule: json_chars.induct) (auto intro: json_chars.intros)

lemma hextable_hexdigit: "i < 16 \<Longrightarrow> hexdigit (hextable ! i)"
proof -
  assume "i < 16"
  then have "hextable ! i \<in> set hextable"
    by (intro nth_mem) (simp add: hextable_def)
  then show ?thesis by (auto simp: hextable_def hexdigit_def)
qed

lemma json_chars_encodeByte: "json_chars (encodeByte c)"
proof -
  have d: "(of_char c :: nat) div 16 < 16"
    using nat_of_char_less_256 [of c] by (simp add: less_mult_imp_div_less)
  have h: "hexdigit (CHR ''0'')" by (simp add: hexdigit_def)
  have u: "json_chars [bsl, CHR ''u'', CHR ''0'', CHR ''0'',
            hextable ! ((of_char c :: nat) div 16), hextable ! ((of_char c :: nat) mod 16)]"
    by (intro json_chars.intros h hextable_hexdigit d) simp
  have esc: "json_chars [bsl, x]"
    if "x \<in> set [dq, bsl, CHR ''b'', CHR ''f'', CHR ''n'', CHR ''r'', CHR ''t'']" for x
    using that by (intro json_chars.chars_escape json_chars.chars_end) auto
  show ?thesis
  proof (cases "c = bsl \<or> c = dq")
    case True
    then have "encodeByte c = [bsl, c]" by (simp add: encodeByte_def)
    with True show ?thesis
      using esc [of c] by auto
  next
    case nq: False
    show ?thesis
    proof (cases "c = CHR 0x08 \<or> c = CHR 0x0C \<or> c = CHR 0x0A \<or> c = CHR 0x0D \<or> c = CHR 0x09")
      case True
      then have "\<exists>x \<in> set [CHR ''b'', CHR ''f'', CHR ''n'', CHR ''r'', CHR ''t'']. encodeByte c = [bsl, x]"
        using nq by (auto simp: encodeByte_def)
      then obtain x where x: "x \<in> set [CHR ''b'', CHR ''f'', CHR ''n'', CHR ''r'', CHR ''t'']"
        and e: "encodeByte c = [bsl, x]" by blast
      from x have "json_chars [bsl, x]" by (intro esc) auto
      with e show ?thesis by simp
    next
      case nw: False
      show ?thesis
      proof (cases "(of_char c :: nat) < 32 \<or> c = CHR ''<'' \<or> c = CHR ''>'' \<or> c = CHR ''&''")
        case True
        then have "encodeByte c = [bsl, CHR ''u'', CHR ''0'', CHR ''0'',
            hextable ! ((of_char c :: nat) div 16), hextable ! ((of_char c :: nat) mod 16)]"
          using nq nw by (simp add: encodeByte_def)
        with u show ?thesis by simp
      next
        case False
        then have e: "encodeByte c = [c]"
          using nq nw by (simp add: encodeByte_def)
        have "json_chars [c]"
          using False nq by (intro json_chars.chars_plain json_chars.chars_end) auto
        with e show ?thesis by simp
      qed
    qed
  qed
qed

lemma json_chars_encodeBytes: "json_chars (encodeBytes s)"
proof (induction s rule: encodeBytes.induct)
  case 1
  show ?case by (simp add: json_chars.intros)
next
  case (2 c)
  show ?case by (simp add: json_chars_encodeByte)
next
  case (3 c c1)
  show ?case by (simp add: json_chars_encodeByte json_chars_append)
next
  case (4 c c1 c2 cs)
  have h: "hexdigit (CHR ''2'')" "hexdigit (CHR ''0'')" by (simp_all add: hexdigit_def)
  have hx: "hexdigit (hextable ! ((of_char c2 :: nat) mod 16))"
    by (rule hextable_hexdigit) simp
  show ?case
  proof (cases "c = CHR 0xE2 \<and> c1 = CHR 0x80 \<and> (c2 = CHR 0xA8 \<or> c2 = CHR 0xA9)")
    case True
    with 4 have "json_chars (encodeBytes cs)" by simp
    then have "json_chars (bsl # CHR ''u'' # CHR ''2'' # CHR ''0'' # CHR ''2''
         # hextable ! ((of_char c2 :: nat) mod 16) # encodeBytes cs)"
      by (intro json_chars.intros h hx)
    with True show ?thesis by simp
  next
    case False
    with 4 have "json_chars (encodeBytes (c1 # c2 # cs))" by simp
    with False show ?thesis
      by (auto simp: json_chars_encodeByte json_chars_append)
  qed
qed

lemma json_value_Marshal:
  assumes "\<And>n. json_number (mf n)"
  shows "json_value (Marshal mf v)"
proof (induction v)
  case JNull
  show ?case by (simp add: json_value.intros)
next
  case (JBool b)
  show ?case by (simp add: json_value.intros)
next
  case (JNum n)
  show ?case by (simp add: json_value.intros assms)
next
  case (JStr s)
  show ?case by (simp add: encodeString_def json_value.intros json_chars_encodeBytes)
next
  case (JArr vs)
  then have "\<forall>t \<in> set (map (Marshal mf) vs). json_value t" by simp
  then show ?case
    using json_value.value_array [of "map (Marshal mf) vs"] by simp
next
  case (JObj kvs)
  let ?ms = "map (\<lambda>(k, v). (encodeBytes k, Marshal mf v)) (sort_key fst kvs)"
  have iv: "json_value (Marshal mf v)" if "(k, v) \<in> set kvs" for k v
    using JObj [OF that] by simp
  have "\<forall>m \<in> set ?ms. json_chars (fst m) \<and> json_value (snd m)"
    by (auto simp: json_chars_encodeBytes iv)
  then have v: "json_value (''{'' @ Join (map (\<lambda>m. dq # fst m @ [dq] @ '':'' @ snd m) ?ms) '','' @ ''}'')"
    by (rule json_value.intros)
  have eq: "map (\<lambda>m. dq # fst m @ [dq] @ '':'' @ snd m) ?ms
      = map (\<lambda>(k, v). encodeString k @ '':'' @ Marshal mf v) (sort_key fst kvs)"
    by (simp add: encodeString_def case_prod_beta)
  show ?case
    using v unfolding eq by simp
qed


section \<open>Marshal writes no less-than sign\<close>

lemma set_Join: "set (Join xs sep) \<subseteq> \<Union> (set ` set xs) \<union> set sep"
  by (induction xs sep rule: Join.induct) auto

lemma Contains_set: "Contains s sub \<Longrightarrow> set sub \<subseteq> set s"
proof (induction s)
  case Nil
  then show ?case by simp
next
  case (Cons a s)
  from Cons.prems have "prefix sub (a # s) \<or> Contains s sub" by simp
  then show ?case
  proof
    assume "prefix sub (a # s)"
    then show ?thesis by (rule set_mono_prefix)
  next
    assume "Contains s sub"
    then have "set sub \<subseteq> set s" by (rule Cons.IH)
    then show ?thesis by auto
  qed
qed

lemma digit_not_lt: "digit c \<Longrightarrow> c \<noteq> CHR ''<''"
  by (auto simp: digit_def)

lemma hexdigit_not_lt: "hexdigit c \<Longrightarrow> c \<noteq> CHR ''<''"
  by (auto simp: hexdigit_def)

lemma digits_no_lt: "list_all digit ds \<Longrightarrow> CHR ''<'' \<notin> set ds"
  by (auto simp: list_all_iff dest: digit_not_lt)

lemma json_int_no_lt: "json_int s \<Longrightarrow> CHR ''<'' \<notin> set s"
  unfolding json_int_def using digits_no_lt [of s] by auto

lemma json_frac_no_lt: "json_frac s \<Longrightarrow> CHR ''<'' \<notin> set s"
proof -
  assume "json_frac s"
  then consider "s = []" | ds where "s = CHR ''.'' # ds" "list_all digit ds"
    unfolding json_frac_def by blast
  then show ?thesis
  proof cases
    case 1
    then show ?thesis by simp
  next
    case 2
    then show ?thesis using digits_no_lt [of ds] by simp
  qed
qed

lemma json_exp_no_lt: "json_exp s \<Longrightarrow> CHR ''<'' \<notin> set s"
proof -
  assume "json_exp s"
  then consider "s = []"
    | e sg ds where "s = e # sg @ ds" "e \<in> set ''eE''" "sg \<in> set [[], ''+'', ''-'']"
        "list_all digit ds"
    unfolding json_exp_def by blast
  then show ?thesis
  proof cases
    case 1
    then show ?thesis by simp
  next
    case 2
    have "CHR ''<'' \<noteq> e" using 2(2) by auto
    moreover have "CHR ''<'' \<notin> set sg" using 2(3) by auto
    ultimately show ?thesis using digits_no_lt [OF 2(4)] 2(1) by simp
  qed
qed

lemma json_number_no_lt: "json_number s \<Longrightarrow> CHR ''<'' \<notin> set s"
proof -
  assume "json_number s"
  then obtain sg i f e where s: "s = sg @ i @ f @ e" and sg: "sg \<in> set [[], ''-'']"
    and "json_int i" "json_frac f" "json_exp e"
    unfolding json_number_def by blast
  then have "CHR ''<'' \<notin> set i" "CHR ''<'' \<notin> set f" "CHR ''<'' \<notin> set e"
    by (simp_all add: json_int_no_lt json_frac_no_lt json_exp_no_lt)
  moreover have "CHR ''<'' \<notin> set sg" using sg by auto
  ultimately show ?thesis by (simp add: s)
qed

lemma encodeByte_no_lt: "CHR ''<'' \<notin> set (encodeByte c)"
proof -
  have d: "(of_char c :: nat) div 16 < 16"
    using nat_of_char_less_256 [of c] by (simp add: less_mult_imp_div_less)
  have "hextable ! ((of_char c :: nat) div 16) \<noteq> CHR ''<''"
    "hextable ! ((of_char c :: nat) mod 16) \<noteq> CHR ''<''"
    using hextable_hexdigit [OF d] hextable_hexdigit [of "(of_char c :: nat) mod 16"]
    by (auto dest: hexdigit_not_lt)
  then show ?thesis
    by (auto simp: encodeByte_def bsl_def dq_def)
qed

lemma encodeBytes_no_lt: "CHR ''<'' \<notin> set (encodeBytes s)"
proof (induction s rule: encodeBytes.induct)
  case (4 c c1 c2 cs)
  have "hextable ! ((of_char c2 :: nat) mod 16) \<noteq> CHR ''<''"
    using hextable_hexdigit [of "(of_char c2 :: nat) mod 16"] by (auto dest: hexdigit_not_lt)
  with 4 show ?case
    by (auto simp: encodeByte_no_lt bsl_def)
qed (simp_all add: encodeByte_no_lt)

lemma Marshal_no_lt:
  assumes "\<And>n. json_number (mf n)"
  shows "CHR ''<'' \<notin> set (Marshal mf v)"
proof (induction v)
  case (JNum n)
  show ?case by (simp add: json_number_no_lt assms)
next
  case (JStr s)
  show ?case by (simp add: encodeString_def encodeBytes_no_lt dq_def)
next
  case (JArr vs)
  then show ?case
    using set_Join [of "map (Marshal mf) vs" "'',''"] by auto
next
  case (JObj kvs)
  have iv: "CHR ''<'' \<notin> set (Marshal mf v)" if "(k, v) \<in> set kvs" for k v
    using JObj [OF that] by simp
  let ?ts = "map (\<lambda>(k, v). encodeString k @ '':'' @ Marshal mf v) (sort_key fst kvs)"
  have "CHR ''<'' \<notin> set t" if "t \<in> set ?ts" for t
  proof -
    from that obtain k v where "(k, v) \<in> set kvs"
      and "t = encodeString k @ '':'' @ Marshal mf v" by auto
    then show ?thesis
      by (simp add: encodeString_def encodeBytes_no_lt dq_def iv)
  qed
  then have "CHR ''<'' \<notin> \<Union> (set ` set ?ts)" by blast
  with set_Join [of ?ts "'',''"] have "CHR ''<'' \<notin> set (Join ?ts '','')" by auto
  then show ?case by simp
qed simp_all

section \<open>The script block\<close>

text \<open>
  C9 fails on this renderHTML for the tag. The line of the script block is written by
  \<^verbatim>\<open>fmt.Sprintf("        customContent['%s'] = %s;\n", tag, string(jsonContent))\<close>:
  the value goes through json.Marshal, which writes the less-than sign as the escape u003c,
  and the tag is written as it is. For the document
  \<^verbatim>\<open>{"1": {"</script><script>alert(1)//": "</script>"}}\<close>
  the value is neutralised and the sequence \<^verbatim>\<open></script>\<close> of the tag
  stands raw inside the script block, which it ends; the line is no assignment of a JSON
  value any more.
\<close>

theorem script_block_holds_raw_tag:
  \<open>fst (handler (lib_of doc_tag) env1 in_order False srv0 ''/'' (Some ''index.json''))
     = \<lparr>status = 200,
        body = plain_head
               @ lines_of [''<script>'',
                           ''        // Non-standard tag content accessible to client'',
                           ''        var customContent = {};'',
                           ''        customContent['</script><script>alert(1)//'] = "''
                             @ [bsl] @ ''u003c/script'' @ [bsl] @ ''u003e";'',
                           ''    </script>'']
               @ ''</head><body><div class="container">'' @ ''</div></body></html>''\<rparr>
   \<and> Contains (scriptBlock (lib_of doc_tag) in_order
                 (firstPass in_order None 0 [] (contentItemsOf doc_tag)))
        ''customContent['</script>''\<close>
  by code_simp

section \<open>handler: the order of the blocks\<close>

text \<open>
  C1 fails on this handler. It takes the content blocks from a \<open>range\<close> over the
  decoded map, and renderHTML takes the tags of a block from a \<open>range\<close> over the
  block, so the body follows the order in which the run visits the maps, not the order of
  the document. For the document with block "1" (h1 "A", p "a") before block "2" (h1 "B"),
  in a run that visits each map last to first, the output of block "2" precedes that of
  block "1", and inside block "1" the output of p precedes that of h1.
\<close>

theorem blocks_rendered_in_visiting_order:
  \<open>mset (backwards HandlerLoop doc_blocks) = mset doc_blocks
   \<and> fst (handler (lib_of doc_blocks) env1 backwards False srv0 ''/'' (Some ''index.json''))
       = \<lparr>status = 200,
          body = plain_head @ ''</head><body><div class="container">''
                 @ ''<h1>B</h1><p>a</p><h1>A</h1>'' @ ''</div></body></html>''\<rparr>\<close>
  by code_simp

text \<open>
  C5 fails on this handler for the same reason. The tag x is non-standard in block "1"
  with value "V1" and in block "3" with value "V2"; in a run that visits block "3" first,
  the script block has one assignment for x, and it is the value "V1" of block "1".
\<close>

theorem side_channel_keeps_last_visited:
  \<open>mset (backwards HandlerLoop doc_twice) = mset doc_twice
   \<and> fst (handler (lib_of doc_twice) env1 backwards False srv0 ''/'' (Some ''index.json''))
       = \<lparr>status = 200,
          body = plain_head
                 @ lines_of [''<script>'',
                             ''        // Non-standard tag content accessible to client'',
                             ''        var customContent = {};'',
                             ''        customContent['x'] = "V1";'',
                             ''    </script>'']
                 @ ''</head><body><div class="container">'' @ ''</div></body></html>''\<rparr>\<close>
  by code_simp

text \<open>
  C8 fails on this renderHTML, which never reads flags: for a document whose flags name
  the framework bootstrap the head is the same as without flags, and the word bootstrap
  occurs nowhere in the response.
\<close>

theorem csslib_adds_nothing:
  \<open>fst (handler (lib_of doc_csslib) env1 (\<lambda>site m. m) False srv0 ''/'' (Some ''index.json''))
       = \<lparr>status = 200,
          body = plain_head @ ''</head><body><div class="container">''
                 @ ''<h1>T</h1>'' @ ''</div></body></html>''\<rparr>
   \<and> \<not> Contains (body (fst (handler (lib_of doc_csslib) env1 (\<lambda>site m. m) False srv0 ''/''
                  (Some ''index.json'')))) ''bootstrap''\<close>
  by code_simp

section \<open>handler: what flags can change\<close>






section \<open>What the later revision does\<close>

text \<open>
  In the later revision the body holds the blocks in the order of the slice, each in its
  div, and the tags of a block in the order of its pairs.
\<close>

lemma renderHTML_v2_in_order:
  \<open>renderHTML_v2 uni L rng templates aiDesign [a, b, c] flags =
     htmlStart_v2 uni L rng templates aiDesign [a, b, c] flags
     @ renderItem_v2 L templates a @ renderItem_v2 L templates b @ renderItem_v2 L templates c
     @ ''</div></body></html>''\<close>
  \<open>renderItem_v2 L templates \<lparr>ID = k, Content = [p, q]\<rparr> =
     ''<div id='' @ [CHR 0x27] @ k @ [CHR 0x27] @ ''>''
     @ renderTag L templates p @ renderTag L templates q @ ''</div>''\<close>
  by (simp_all add: renderHTML_v2_def renderItem_v2_def)

text \<open>
  In the later revision the head holds the fixed tags of the framework that
  \<open>flags.csslib\<close> names, and nothing for another value or without the key.
\<close>

lemma cssLibTags_v2:
  \<open>cssLibTags uni L (Some [(''csslib'', JStr ''bootstrap'')]) =
     lines_of [''    <link href="https://cdn.jsdelivr.net/npm/bootstrap@5.3.2/dist/css/bootstrap.min.css" rel="stylesheet">'',
               ''    <script src="https://cdn.jsdelivr.net/npm/bootstrap@5.3.2/dist/js/bootstrap.bundle.min.js"></script>'']\<close>
  \<open>cssLibTags uni L (Some [(''csslib'', JStr ''Tailwind'')]) =
     lines_of [''    <script src="https://cdn.tailwindcss.com"></script>'']\<close>
  \<open>cssLibTags uni L (Some [(''csslib'', JStr ''bulma'')]) =
     lines_of [''    <link rel="stylesheet" href="https://cdn.jsdelivr.net/npm/bulma@0.9.4/css/bulma.min.css">'']\<close>
  \<open>cssLibTags uni L (Some [(''csslib'', JStr ''materialize'')]) =
     lines_of [''    <link rel="stylesheet" href="https://cdnjs.cloudflare.com/ajax/libs/materialize/1.0.0/css/materialize.min.css">'',
               ''    <script src="https://cdnjs.cloudflare.com/ajax/libs/materialize/1.0.0/js/materialize.min.js"></script>'']\<close>
  \<open>cssLibTags uni L (Some [(''csslib'', JStr ''foundation'')]) = []\<close>
  \<open>cssLibTags uni L (Some [(''designprompt'', JStr ''dark'')]) = []\<close>
  \<open>cssLibTags uni L None = []\<close>
proof -
  have l: "ToLower uni ''bootstrap'' = ''bootstrap''" "ToLower uni ''Tailwind'' = ''tailwind''"
    "ToLower uni ''bulma'' = ''bulma''" "ToLower uni ''materialize'' = ''materialize''"
    "ToLower uni ''foundation'' = ''foundation''"
    unfolding ToLower_def by code_simp+
  show \<open>cssLibTags uni L (Some [(''csslib'', JStr ''bootstrap'')]) =
     lines_of [''    <link href="https://cdn.jsdelivr.net/npm/bootstrap@5.3.2/dist/css/bootstrap.min.css" rel="stylesheet">'',
               ''    <script src="https://cdn.jsdelivr.net/npm/bootstrap@5.3.2/dist/js/bootstrap.bundle.min.js"></script>'']\<close>
    by (simp add: cssLibTags_def l)
  show \<open>cssLibTags uni L (Some [(''csslib'', JStr ''Tailwind'')]) =
     lines_of [''    <script src="https://cdn.tailwindcss.com"></script>'']\<close>
    by (simp add: cssLibTags_def l)
  show \<open>cssLibTags uni L (Some [(''csslib'', JStr ''bulma'')]) =
     lines_of [''    <link rel="stylesheet" href="https://cdn.jsdelivr.net/npm/bulma@0.9.4/css/bulma.min.css">'']\<close>
    by (simp add: cssLibTags_def l)
  show \<open>cssLibTags uni L (Some [(''csslib'', JStr ''materialize'')]) =
     lines_of [''    <link rel="stylesheet" href="https://cdnjs.cloudflare.com/ajax/libs/materialize/1.0.0/css/materialize.min.css">'',
               ''    <script src="https://cdnjs.cloudflare.com/ajax/libs/materialize/1.0.0/js/materialize.min.js"></script>'']\<close>
    by (simp add: cssLibTags_def l)
  show \<open>cssLibTags uni L (Some [(''csslib'', JStr ''foundation'')]) = []\<close>
    by (simp add: cssLibTags_def l)
  show \<open>cssLibTags uni L (Some [(''designprompt'', JStr ''dark'')]) = []\<close>
    by (simp add: cssLibTags_def)
  show \<open>cssLibTags uni L None = []\<close>
    by (simp add: cssLibTags_def)
qed


text \<open>
  The later revision on the document
  \<^verbatim>\<open>{"flags": {"csslib": "bootstrap"}, "1": {"h1": "A", "p": "a"}, "2": {"h1": "B"}}\<close>.
\<close>

lemma renderHTML_v2_example:
  \<open>renderHTML_v2 (\<lambda>s. s) lib_text backwards None False
       [\<lparr>ID = ''1'', Content = [(''h1'', JStr ''A''), (''p'', JStr ''a'')]\<rparr>,
        \<lparr>ID = ''2'', Content = [(''h1'', JStr ''B'')]\<rparr>]
       (Some [(''csslib'', JStr ''bootstrap'')])
     = lines_of [''<!DOCTYPE html>'',
                 ''<html lang="en">'',
                 ''<head>'',
                 ''    <meta charset="UTF-8">'',
                 ''    <meta name="viewport" content="width=device-width, initial-scale=1.0">'',
                 ''    <title>JSON Server</title>'',
                 ''    <link href="https://cdn.jsdelivr.net/npm/bootstrap@5.3.2/dist/css/bootstrap.min.css" rel="stylesheet">'',
                 ''    <script src="https://cdn.jsdelivr.net/npm/bootstrap@5.3.2/dist/js/bootstrap.bundle.min.js"></script>'',
                 ''    <style>'',
                 ''        body { font-family: sans-serif; line-height: 1.6; padding: 20px; max-width: 800px; margin: 0 auto; }'',
                 ''        img { max-width: 100%; height: auto; }'',
                 ''    </style>'']
       @ ''</head><body><div class="container">''
       @ ''<div id='1'><h1>A</h1><p>a</p></div><div id='2'><h1>B</h1></div>''
       @ ''</div></body></html>''\<close>
  by code_simp

end
